theory Spec2Isabelle
  imports Main "HOL-Library.Word"
begin

unbundle bit_operations_syntax

section \<open>The xpack container program (programs/xpack.c)\<close>

text \<open>
  The development follows programs/xpack.c: the 16-byte file header, the 8-byte chunk
  headers, the chunk loops \<open>do_compress\<close> and \<open>do_decompress\<close>, the per-file drivers
  \<open>compress_file\<close> and \<open>decompress_file\<close> with their cleanup labels, and the exit
  status computed by \<open>tmain\<close>.
\<close>

subsection \<open>Bytes, fixed-width fields and host byte order\<close>

type_synonym u8 = "8 word"
type_synonym u16 = "16 word"
type_synonym u32 = "32 word"

text \<open>
  A multi-byte field of a C struct lies in memory in the byte order of the host. The
  program reads and writes whole structs with \<open>xread\<close> and \<open>full_write\<close>, so the model
  keeps the host byte order as a parameter: \<open>store_u32 h v\<close> is the object representation
  of a \<open>u32\<close> holding \<open>v\<close> on host \<open>h\<close>, and \<open>load_u32 h bs\<close> is the value of a \<open>u32\<close>
  whose object representation is \<open>bs\<close>.
\<close>

datatype endian = Little_endian | Big_endian

definition le16 :: "u16 \<Rightarrow> u8 list" where
  "le16 v = [ucast v, ucast (drop_bit 8 v)]"

definition le32 :: "u32 \<Rightarrow> u8 list" where
  "le32 v = [ucast v, ucast (drop_bit 8 v), ucast (drop_bit 16 v), ucast (drop_bit 24 v)]"

definition store_u16 :: "endian \<Rightarrow> u16 \<Rightarrow> u8 list" where
  "store_u16 h v = (case h of Little_endian \<Rightarrow> le16 v | Big_endian \<Rightarrow> rev (le16 v))"

definition store_u32 :: "endian \<Rightarrow> u32 \<Rightarrow> u8 list" where
  "store_u32 h v = (case h of Little_endian \<Rightarrow> le32 v | Big_endian \<Rightarrow> rev (le32 v))"

fun from_le16 :: "u8 list \<Rightarrow> u16" where
  "from_le16 [b0, b1] = ucast b0 OR push_bit 8 (ucast b1)"
| "from_le16 bs = 0"

fun from_le32 :: "u8 list \<Rightarrow> u32" where
  "from_le32 [b0, b1, b2, b3] =
     ucast b0 OR push_bit 8 (ucast b1) OR push_bit 16 (ucast b2) OR push_bit 24 (ucast b3)"
| "from_le32 bs = 0"

definition load_u16 :: "endian \<Rightarrow> u8 list \<Rightarrow> u16" where
  "load_u16 h bs = (case h of Little_endian \<Rightarrow> from_le16 bs | Big_endian \<Rightarrow> from_le16 (rev bs))"

definition load_u32 :: "endian \<Rightarrow> u8 list \<Rightarrow> u32" where
  "load_u32 h bs = (case h of Little_endian \<Rightarrow> from_le32 bs | Big_endian \<Rightarrow> from_le32 (rev bs))"

text \<open>
  Modelled from the spec: the header common/common_defs.h with the macros \<open>le16_bswap\<close>
  and \<open>le32_bswap\<close> is not among the sources. The spec fixes the on-disk byte order as
  little-endian "regardless of host" and says that no runtime byte-swap flag exists; the
  macros are modelled as the conditional byte swap that converts between the host order
  and little-endian: the identity on a little-endian host, a reversal of the bytes of the
  value on a big-endian one.
\<close>

definition bswap16 :: "u16 \<Rightarrow> u16" where
  "bswap16 n = from_le16 (rev (le16 n))"

definition bswap32 :: "u32 \<Rightarrow> u32" where
  "bswap32 n = from_le32 (rev (le32 n))"

definition le16_bswap :: "endian \<Rightarrow> u16 \<Rightarrow> u16" where
  "le16_bswap h n = (case h of Little_endian \<Rightarrow> n | Big_endian \<Rightarrow> bswap16 n)"

definition le32_bswap :: "endian \<Rightarrow> u32 \<Rightarrow> u32" where
  "le32_bswap h n = (case h of Little_endian \<Rightarrow> n | Big_endian \<Rightarrow> bswap32 n)"

subsection \<open>File header and chunk header\<close>

record xpack_file_header =
  magic :: "u8 list"
  chunk_size :: u32
  header_size :: u16
  version :: u8
  compression_level :: u8

record xpack_chunk_header =
  stored_size :: u32
  original_size :: u32

text \<open>\<open>XPACK_MAGIC\<close> is the string "XPACK" followed by three zero bytes.\<close>

definition XPACK_MAGIC :: "u8 list" where
  "XPACK_MAGIC = [0x58, 0x50, 0x41, 0x43, 0x4B, 0, 0, 0]"

text \<open>\<open>sizeof(struct xpack_file_header)\<close> and \<open>sizeof(struct xpack_chunk_header)\<close>,
  as the two \<open>STATIC_ASSERT\<close>s fix them.\<close>

definition sizeof_file_header :: nat where
  "sizeof_file_header = 16"

definition sizeof_chunk_header :: nat where
  "sizeof_chunk_header = 8"

text \<open>The object representation of the two structs on host \<open>h\<close> (no padding, by the
  static assertions), and the struct read back from its bytes.\<close>

definition file_header_bytes :: "endian \<Rightarrow> xpack_file_header \<Rightarrow> u8 list" where
  "file_header_bytes h hdr =
     take 8 (magic hdr) @ store_u32 h (chunk_size hdr) @ store_u16 h (header_size hdr)
       @ [version hdr] @ [compression_level hdr]"

definition file_header_of_bytes :: "endian \<Rightarrow> u8 list \<Rightarrow> xpack_file_header" where
  "file_header_of_bytes h bs =
     \<lparr> magic = take 8 bs,
       chunk_size = load_u32 h (take 4 (drop 8 bs)),
       header_size = load_u16 h (take 2 (drop 12 bs)),
       version = bs ! 14,
       compression_level = bs ! 15 \<rparr>"

definition chunk_header_bytes :: "endian \<Rightarrow> xpack_chunk_header \<Rightarrow> u8 list" where
  "chunk_header_bytes h hdr = store_u32 h (stored_size hdr) @ store_u32 h (original_size hdr)"

definition chunk_header_of_bytes :: "endian \<Rightarrow> u8 list \<Rightarrow> xpack_chunk_header" where
  "chunk_header_of_bytes h bs =
     \<lparr> stored_size = load_u32 h (take 4 bs),
       original_size = load_u32 h (take 4 (drop 4 bs)) \<rparr>"

definition bswap_file_header :: "endian \<Rightarrow> xpack_file_header \<Rightarrow> xpack_file_header" where
  "bswap_file_header h hdr =
     hdr\<lparr> chunk_size := le32_bswap h (chunk_size hdr),
          header_size := le16_bswap h (header_size hdr) \<rparr>"

definition bswap_chunk_header :: "endian \<Rightarrow> xpack_chunk_header \<Rightarrow> xpack_chunk_header" where
  "bswap_chunk_header h hdr =
     hdr\<lparr> stored_size := le32_bswap h (stored_size hdr),
          original_size := le32_bswap h (original_size hdr) \<rparr>"

subsection \<open>File streams\<close>

text \<open>
  Modelled from the spec: programs/prog_util.c (\<open>xread\<close>, \<open>full_write\<close>, \<open>skip_bytes\<close>,
  \<open>xopen_for_read\<close>, \<open>xopen_for_write\<close>, \<open>xclose\<close>, \<open>xmalloc\<close>, \<open>get_filename\<close>) is
  not among the sources; the spec names stdio as an external collaborator of the container
  program. The streams below give these helpers the return convention that the call sites
  in xpack.c test: \<open>xread\<close> returns the number of bytes read, short only at the end of the
  input, or a negative value on a read error; \<open>full_write\<close> and \<open>skip_bytes\<close> return 0 or
  a nonzero value. An input stream is the bytes still to come together with what follows
  them (the end of the file or a failing read); an output stream is the bytes written so
  far together with an optional limit after which writing fails. Messages printed by the
  helpers themselves are not recorded.
\<close>

datatype read_end = End_of_file | Read_failure

record file_in =
  in_bytes :: "u8 list"
  in_end :: read_end

record file_out =
  out_bytes :: "u8 list"
  out_limit :: "nat option"

definition xread :: "file_in \<Rightarrow> nat \<Rightarrow> u8 list option \<times> file_in" where
  "xread strm count =
     (if count \<le> length (in_bytes strm)
      then (Some (take count (in_bytes strm)), strm\<lparr>in_bytes := drop count (in_bytes strm)\<rparr>)
      else case in_end strm of
             End_of_file \<Rightarrow> (Some (in_bytes strm), strm\<lparr>in_bytes := []\<rparr>)
           | Read_failure \<Rightarrow> (None, strm\<lparr>in_bytes := []\<rparr>))"

definition skip_bytes :: "file_in \<Rightarrow> nat \<Rightarrow> int \<times> file_in" where
  "skip_bytes strm count =
     (case xread strm count of
        (None, strm') \<Rightarrow> (-1, strm')
      | (Some bs, strm') \<Rightarrow> if length bs \<noteq> count then (-1, strm') else (0, strm'))"

definition full_write :: "file_out \<Rightarrow> u8 list \<Rightarrow> int \<times> file_out" where
  "full_write strm bs =
     (case out_limit strm of
        None \<Rightarrow> (0, strm\<lparr>out_bytes := out_bytes strm @ bs\<rparr>)
      | Some lim \<Rightarrow>
          if length (out_bytes strm) + length bs \<le> lim
          then (0, strm\<lparr>out_bytes := out_bytes strm @ bs\<rparr>)
          else (-1, strm\<lparr>out_bytes := out_bytes strm @ take (lim - length (out_bytes strm)) bs\<rparr>))"

subsection \<open>Writing the headers\<close>

definition write_file_header :: "endian \<Rightarrow> file_out \<Rightarrow> u32 \<Rightarrow> int \<Rightarrow> int \<times> file_out" where
  "write_file_header h out chunk_sz level =
     (let hdr = \<lparr> magic = take 8 XPACK_MAGIC,
                   chunk_size = chunk_sz,
                   header_size = of_nat sizeof_file_header,
                   version = 1,
                   compression_level = of_int level \<rparr>;
          hdr = bswap_file_header h hdr
      in full_write out (take sizeof_file_header (file_header_bytes h hdr)))"

definition write_chunk_header :: "endian \<Rightarrow> file_out \<Rightarrow> u32 \<Rightarrow> u32 \<Rightarrow> int \<times> file_out" where
  "write_chunk_header h out stored_sz original_sz =
     (let hdr = \<lparr> stored_size = stored_sz, original_size = original_sz \<rparr>;
          hdr = bswap_chunk_header h hdr
      in full_write out (take sizeof_chunk_header (chunk_header_bytes h hdr)))"

subsection \<open>The codec as the container program sees it\<close>

text \<open>
  Modelled from the spec: lib/xpack_compress.c and lib/xpack_decompress.c are not among
  the sources. The container program uses the codec only through whole-buffer calls, so a
  compressor handle is taken as a parameter: the function from the input buffer and
  \<open>out_capacity\<close> to the bytes it leaves in the output buffer, their number being the
  return value of \<open>xpack_compress\<close> (the empty list is the return value 0). A decompressor
  handle is the function from the input bytes and \<open>expected_out_size\<close> to the result code
  and the first \<open>expected_out_size\<close> bytes of the output buffer after the call. The result
  codes are those of the spec's codec API.
\<close>

datatype decompress_result =
  DECOMPRESS_SUCCESS | DECOMPRESS_BAD_DATA | DECOMPRESS_SHORT_OUTPUT
  | DECOMPRESS_INSUFFICIENT_SPACE

type_synonym xpack_compressor = "u8 list \<Rightarrow> nat \<Rightarrow> u8 list"

type_synonym xpack_decompressor = "u8 list \<Rightarrow> nat \<Rightarrow> decompress_result \<times> u8 list"

text \<open>
  Modelled from the spec: the contract of the absent \<open>xpack_compress\<close>, "Never writes
  past \<open>out_capacity\<close>": the returned size is at most the capacity it was given.
\<close>

definition within_capacity :: "xpack_compressor \<Rightarrow> bool" where
  "within_capacity c = (\<forall>buf cap. length (c buf cap) \<le> cap)"

subsection \<open>Diagnostics and events\<close>

text \<open>The messages that xpack.c prints with \<open>msg\<close>, and the file-system effects of a
  run, in the order in which they happen.\<close>

datatype diag =
  No_suffix | Already_has_suffix
  | Refuse_read_terminal | Refuse_write_terminal
  | Unable_to_stat | Is_directory | Not_regular_file | Multiple_hard_links
  | Not_xpack_format | Unsupported_version u8 | Incorrect_header_size u16
  | Unsupported_chunk_size u32
  | File_corrupt | Unexpected_eof | Data_corrupt

datatype event =
  Msg diag
  | Xopen_for_write "string option"
  | Restore_metadata string
  | Xclose_out
  | Xclose_in
  | Tunlink string

subsection \<open>\<open>do_compress\<close>\<close>

text \<open>
  The body of the \<open>while\<close> loop of \<open>do_compress\<close> for one chunk \<open>buf\<close> that \<open>xread\<close>
  returned (\<open>ret > 0\<close>, so \<open>buf\<close> is not empty): compress with
  \<open>out_capacity = original_size - 1\<close>, choose what to store, write the chunk header and
  the stored bytes. The result is \<open>ret\<close> and the output stream; a nonzero \<open>ret\<close> is the
  \<open>goto out\<close>.
\<close>

definition compress_chunk ::
  "endian \<Rightarrow> xpack_compressor \<Rightarrow> file_out \<Rightarrow> u8 list \<Rightarrow> int \<times> file_out" where
  "compress_chunk h compressor out buf =
     (let original_sz = (of_nat (length buf) :: u32);
          compressed_buf = compressor buf (unat (original_sz - 1));
          compressed_sz = (of_nat (length compressed_buf) :: u32);
          (stored_buf, stored_sz) =
             (if compressed_sz = 0 then (buf, original_sz)
              else (compressed_buf, compressed_sz));
          (ret, out) = write_chunk_header h out stored_sz original_sz
      in if ret \<noteq> 0 then (ret, out)
         else full_write out (take (unat stored_sz) stored_buf))"

function compress_loop ::
  "endian \<Rightarrow> xpack_compressor \<Rightarrow> u32 \<Rightarrow> file_in \<Rightarrow> file_out \<Rightarrow> int \<times> file_out" where
  "compress_loop h compressor chunk_sz inp out =
     (case xread inp (unat chunk_sz) of
        (None, inp') \<Rightarrow> (-1, out)
      | (Some buf, inp') \<Rightarrow>
          if buf = [] then (0, out)
          else (case compress_chunk h compressor out buf of
                  (ret, out') \<Rightarrow>
                    if ret \<noteq> 0 then (ret, out')
                    else compress_loop h compressor chunk_sz inp' out'))"
  by pat_completeness auto
termination
  by (relation "measure (\<lambda>(h, c, cs, inp, out). length (in_bytes inp))")
     (auto simp: xread_def split: if_splits read_end.splits)

declare compress_loop.simps [simp del]

text \<open>\<open>mem_ok\<close> says that the two \<open>xmalloc\<close> calls returned buffers.\<close>

definition do_compress ::
  "endian \<Rightarrow> xpack_compressor \<Rightarrow> bool \<Rightarrow> file_in \<Rightarrow> file_out \<Rightarrow> u32 \<Rightarrow> int \<times> file_out" where
  "do_compress h compressor mem_ok inp out chunk_sz =
     (if \<not> mem_ok then (-1, out) else compress_loop h compressor chunk_sz inp out)"

subsection \<open>\<open>do_decompress\<close>\<close>

text \<open>
  The body of the \<open>while\<close> loop of \<open>do_decompress\<close>, entered with the 8 bytes \<open>hb\<close> of a
  chunk header that \<open>xread\<close> returned in full. The result is \<open>ret\<close>, the two streams and
  the messages printed; a nonzero \<open>ret\<close> is the \<open>goto out\<close>.
\<close>

definition decompress_chunk ::
  "endian \<Rightarrow> xpack_decompressor \<Rightarrow> u32 \<Rightarrow> u8 list \<Rightarrow> file_in \<Rightarrow> file_out
     \<Rightarrow> int \<times> file_in \<times> file_out \<times> event list" where
  "decompress_chunk h decompressor chunk_sz hb inp out =
     (let chunk_hdr = bswap_chunk_header h (chunk_header_of_bytes h hb);
          original_sz = original_size chunk_hdr;
          stored_sz = stored_size chunk_hdr
      in if original_sz < 1 \<or> original_sz > chunk_sz \<or>
            stored_sz < 1 \<or> stored_sz > original_sz
         then (-1, inp, out, [Msg File_corrupt])
         else (case xread inp (unat stored_sz) of
                 (None, inp') \<Rightarrow> (-1, inp', out, [])
               | (Some sb, inp') \<Rightarrow>
                   if length sb \<noteq> unat stored_sz
                   then (-1, inp', out, [Msg Unexpected_eof])
                   else if stored_sz \<noteq> original_sz
                   then (case decompressor sb (unat original_sz) of
                           (result, original_buf) \<Rightarrow>
                             if result \<noteq> DECOMPRESS_SUCCESS
                             then (-1, inp', out, [Msg Data_corrupt])
                             else (case full_write out (take (unat original_sz) original_buf) of
                                     (ret, out') \<Rightarrow> (ret, inp', out', [])))
                   else (case full_write out (take (unat original_sz) sb) of
                           (ret, out') \<Rightarrow> (ret, inp', out', []))))"

function decompress_loop ::
  "endian \<Rightarrow> xpack_decompressor \<Rightarrow> u32 \<Rightarrow> file_in \<Rightarrow> file_out \<Rightarrow> event list
     \<Rightarrow> int \<times> file_out \<times> event list" where
  "decompress_loop h decompressor chunk_sz inp out log =
     (case xread inp sizeof_chunk_header of
        (None, inp') \<Rightarrow> (-1, out, log)
      | (Some hb, inp') \<Rightarrow>
          if length hb \<noteq> sizeof_chunk_header
          then (if 0 < length hb then (-1, out, log @ [Msg Unexpected_eof])
                else (0, out, log))
          else (case decompress_chunk h decompressor chunk_sz hb inp' out of
                  (ret, inp'', out', msgs) \<Rightarrow>
                    if ret \<noteq> 0 then (ret, out', log @ msgs)
                    else decompress_loop h decompressor chunk_sz inp'' out' (log @ msgs)))"
  by pat_completeness auto
termination
  by (relation "measure (\<lambda>(h, d, cs, inp, out, log). length (in_bytes inp))")
     (auto simp: xread_def decompress_chunk_def sizeof_chunk_header_def Let_def
           split: if_splits read_end.splits prod.splits option.splits)

declare decompress_loop.simps [simp del]

definition do_decompress ::
  "endian \<Rightarrow> xpack_decompressor \<Rightarrow> bool \<Rightarrow> file_in \<Rightarrow> file_out \<Rightarrow> u32
     \<Rightarrow> int \<times> file_out \<times> event list" where
  "do_decompress h decompressor mem_ok inp out chunk_sz =
     (if \<not> mem_ok then (-1, out, [])
      else decompress_loop h decompressor chunk_sz inp out [])"

subsection \<open>Options, suffixes and the environment of one file\<close>

record options =
  opt_to_stdout :: bool
  opt_decompress :: bool
  opt_force :: bool
  opt_keep :: bool
  opt_compression_level :: int
  opt_chunk_size :: u32
  opt_suffix :: string

text \<open>\<open>tstrrchr s c\<close>: the index of the last occurrence of \<open>c\<close> in \<open>s\<close>, \<open>None\<close> for
  the null pointer.\<close>

primrec tstrrchr :: "string \<Rightarrow> char \<Rightarrow> nat option" where
  "tstrrchr [] c = None"
| "tstrrchr (x # xs) c =
     (case tstrrchr xs c of
        Some i \<Rightarrow> Some (Suc i)
      | None \<Rightarrow> if x = c then Some 0 else None)"

text \<open>
  Modelled from the spec: \<open>get_filename\<close> of the absent programs/prog_util.c, as the
  offset of the last path component: the position after the last slash, 0 when the path
  has none. \<open>tstrxcmp\<close> is taken as string equality.
\<close>

definition get_filename :: "string \<Rightarrow> nat" where
  "get_filename path = (case tstrrchr path (CHR ''/'') of None \<Rightarrow> 0 | Some i \<Rightarrow> Suc i)"

text \<open>\<open>get_suffix\<close> returns the pointer \<open>dot\<close>, here its offset in \<open>path\<close>.\<close>

definition get_suffix :: "string \<Rightarrow> string \<Rightarrow> nat option" where
  "get_suffix path suffix =
     (let off = get_filename path
      in case tstrrchr (drop off path) (CHR ''.'') of
           None \<Rightarrow> None
         | Some d \<Rightarrow> if drop (off + d + 1) path = suffix then Some (off + d) else None)"

definition has_suffix :: "string \<Rightarrow> string \<Rightarrow> bool" where
  "has_suffix path suffix = (get_suffix path suffix \<noteq> None)"

text \<open>
  What the operating system and the absent helpers answer for one file operand:
  the return value of \<open>xopen_for_read\<close> and the stream it opens, \<open>isatty\<close> on the two
  descriptors, the result of \<open>fstat\<close> with the fields \<open>stat_file\<close> looks at, the return
  value of \<open>xopen_for_write\<close> and the (empty) stream it opens, the return value of
  \<open>xclose\<close> on the output, and whether \<open>xmalloc\<close> returns the chunk buffers.
\<close>

record file_env =
  fe_open_read :: int
  fe_input :: file_in
  fe_in_isatty :: bool
  fe_fstat :: int
  fe_is_reg :: bool
  fe_is_dir :: bool
  fe_nlink :: nat
  fe_open_write :: int
  fe_output :: file_out
  fe_out_isatty :: bool
  fe_close_out :: int
  fe_mem_ok :: bool

text \<open>The result of processing one file: the return value, the output stream if
  \<open>xopen_for_write\<close> opened one, and the events in order.\<close>

record file_result =
  fr_ret :: int
  fr_out :: "file_out option"
  fr_log :: "event list"

definition stat_file :: "file_env \<Rightarrow> bool \<Rightarrow> bool \<Rightarrow> int \<times> event list" where
  "stat_file env is_standard_stream allow_hard_links =
     (if fe_fstat env \<noteq> 0 then (-1, [Msg Unable_to_stat])
      else if \<not> fe_is_reg env \<and> \<not> is_standard_stream
      then (-2, [Msg (if fe_is_dir env then Is_directory else Not_regular_file)])
      else if fe_nlink env > 1 \<and> \<not> allow_hard_links
      then (-2, [Msg Multiple_hard_links])
      else (0, []))"

subsection \<open>The cleanup labels shared by \<open>compress_file\<close> and \<open>decompress_file\<close>\<close>

text \<open>Label \<open>out_close_in\<close>: close the input, and unlink it when everything succeeded,
  input and output are named files and \<open>-k\<close> was not given.\<close>

definition out_close_in ::
  "options \<Rightarrow> string option \<Rightarrow> string option \<Rightarrow> int \<Rightarrow> file_out option \<Rightarrow> event list
     \<Rightarrow> file_result" where
  "out_close_in opts path newpath ret out log =
     \<lparr> fr_ret = ret,
       fr_out = out,
       fr_log = log @ [Xclose_in] @
         (case (path, newpath) of
            (Some p, Some np) \<Rightarrow> if ret = 0 \<and> \<not> opt_keep opts then [Tunlink p] else []
          | _ \<Rightarrow> []) \<rparr>"

text \<open>Label \<open>out_close_out\<close>: close the output, take its error if there was none so far,
  unlink a named output on failure, and go on to \<open>out_close_in\<close>.\<close>

definition out_close_out ::
  "file_env \<Rightarrow> options \<Rightarrow> string option \<Rightarrow> string option \<Rightarrow> int \<Rightarrow> file_out \<Rightarrow> event list
     \<Rightarrow> file_result" where
  "out_close_out env opts path newpath ret out log =
     (let ret2 = fe_close_out env;
          ret = (if ret = 0 then ret2 else ret);
          log = log @ [Xclose_out] @
            (case newpath of
               Some np \<Rightarrow> if ret \<noteq> 0 then [Tunlink np] else []
             | None \<Rightarrow> [])
      in out_close_in opts path newpath ret (Some out) log)"

text \<open>\<open>restore_metadata\<close> is called only for a named input and a named output.\<close>

definition restore_metadata_events :: "string option \<Rightarrow> string option \<Rightarrow> event list" where
  "restore_metadata_events path newpath =
     (case (path, newpath) of (Some p, Some np) \<Rightarrow> [Restore_metadata np] | _ \<Rightarrow> [])"

subsection \<open>\<open>decompress_file\<close>\<close>

text \<open>The part of \<open>decompress_file\<close> from the read of the file header on; \<open>log\<close> holds
  the events so far.\<close>

definition decompress_from_header ::
  "endian \<Rightarrow> xpack_decompressor \<Rightarrow> file_env \<Rightarrow> options \<Rightarrow> string option \<Rightarrow> string option
     \<Rightarrow> event list \<Rightarrow> file_result" where
  "decompress_from_header h d env opts path newpath log =
     (case xread (fe_input env) sizeof_file_header of
        (None, inp) \<Rightarrow> out_close_in opts path newpath (-1) None log
      | (Some hb, inp) \<Rightarrow>
          if length hb \<noteq> sizeof_file_header
          then out_close_in opts path newpath (-1) None (log @ [Msg Not_xpack_format])
          else
            let hdr = bswap_file_header h (file_header_of_bytes h hb)
            in if magic hdr \<noteq> take 8 XPACK_MAGIC
               then out_close_in opts path newpath (-1) None (log @ [Msg Not_xpack_format])
               else if version hdr \<noteq> 1
               then out_close_in opts path newpath (-1) None
                      (log @ [Msg (Unsupported_version (version hdr))])
               else if unat (header_size hdr) < sizeof_file_header
               then out_close_in opts path newpath (-1) None
                      (log @ [Msg (Incorrect_header_size (header_size hdr))])
               else if chunk_size hdr < 1024 \<or> chunk_size hdr > 67108864
               then out_close_in opts path newpath (-1) None
                      (log @ [Msg (Unsupported_chunk_size (chunk_size hdr))])
               else
                 (case skip_bytes inp (unat (header_size hdr) - sizeof_file_header) of
                    (ret, inp) \<Rightarrow>
                      if ret \<noteq> 0 then out_close_in opts path newpath ret None log
                      else
                        let log = log @ [Xopen_for_write newpath]
                        in if fe_open_write env \<noteq> 0
                           then out_close_in opts path newpath (fe_open_write env) None log
                           else
                             (case do_decompress h d (fe_mem_ok env) inp (fe_output env)
                                     (chunk_size hdr) of
                                (ret, out, msgs) \<Rightarrow>
                                  if ret \<noteq> 0
                                  then out_close_out env opts path newpath ret out (log @ msgs)
                                  else out_close_out env opts path newpath 0 out
                                         (log @ msgs @ restore_metadata_events path newpath))))"

text \<open>The first step of \<open>decompress_file\<close>: the name of the output file. \<open>Inl\<close> is
  the \<open>goto out\<close> with \<open>ret = -2\<close> when a named input lacks the suffix; \<open>Inr None\<close> is
  \<open>newpath == NULL\<close> (standard output).\<close>

definition decompress_newpath :: "options \<Rightarrow> string option \<Rightarrow> int + string option" where
  "decompress_newpath opts path =
     (case path of
        Some p \<Rightarrow>
          if \<not> opt_to_stdout opts
          then (case get_suffix p (opt_suffix opts) of
                  None \<Rightarrow> Inl (-2)
                | Some n \<Rightarrow> Inr (Some (take n p)))
          else Inr None
      | None \<Rightarrow> Inr None)"

definition decompress_file ::
  "endian \<Rightarrow> xpack_decompressor \<Rightarrow> file_env \<Rightarrow> options \<Rightarrow> string option \<Rightarrow> file_result" where
  "decompress_file h d env opts path =
     (case decompress_newpath opts path of
        Inl ret \<Rightarrow> \<lparr> fr_ret = ret, fr_out = None, fr_log = [Msg No_suffix] \<rparr>
      | Inr newpath \<Rightarrow>
          if fe_open_read env \<noteq> 0
          then \<lparr> fr_ret = fe_open_read env, fr_out = None, fr_log = [] \<rparr>
          else if \<not> opt_force opts \<and> fe_in_isatty env
          then out_close_in opts path newpath (-1) None [Msg Refuse_read_terminal]
          else
            (case stat_file env (path = None) (opt_force opts \<or> newpath = None) of
               (ret, msgs) \<Rightarrow>
                 if ret \<noteq> 0 then out_close_in opts path newpath ret None msgs
                 else decompress_from_header h d env opts path newpath msgs))"

subsection \<open>\<open>compress_file\<close>\<close>

text \<open>The first step of \<open>compress_file\<close>: the name of the output file, with \<open>Inl\<close>
  the \<open>goto out\<close> with \<open>ret = -2\<close> when a named input already has the suffix and
  \<open>-f\<close> was not given.\<close>

definition compress_newpath :: "options \<Rightarrow> string option \<Rightarrow> int + string option" where
  "compress_newpath opts path =
     (case path of
        Some p \<Rightarrow>
          if \<not> opt_to_stdout opts
          then (if \<not> opt_force opts \<and> has_suffix p (opt_suffix opts)
                then Inl (-2)
                else Inr (Some (p @ ''.'' @ opt_suffix opts)))
          else Inr None
      | None \<Rightarrow> Inr None)"

definition compress_file ::
  "endian \<Rightarrow> xpack_compressor \<Rightarrow> file_env \<Rightarrow> options \<Rightarrow> string option \<Rightarrow> file_result" where
  "compress_file h c env opts path =
     (case compress_newpath opts path of
        Inl ret \<Rightarrow> \<lparr> fr_ret = ret, fr_out = None, fr_log = [Msg Already_has_suffix] \<rparr>
      | Inr newpath \<Rightarrow>
          if fe_open_read env \<noteq> 0
          then \<lparr> fr_ret = fe_open_read env, fr_out = None, fr_log = [] \<rparr>
          else
            (case stat_file env (path = None) (opt_force opts \<or> newpath = None) of
               (ret, msgs) \<Rightarrow>
                 if ret \<noteq> 0 then out_close_in opts path newpath ret None msgs
                 else
                   let log = msgs @ [Xopen_for_write newpath]
                   in if fe_open_write env \<noteq> 0
                      then out_close_in opts path newpath (fe_open_write env) None log
                      else if \<not> opt_force opts \<and> fe_out_isatty env
                      then out_close_out env opts path newpath (-1) (fe_output env)
                             (log @ [Msg Refuse_write_terminal])
                      else
                        (case write_file_header h (fe_output env) (opt_chunk_size opts)
                                (opt_compression_level opts) of
                           (ret, out) \<Rightarrow>
                             if ret \<noteq> 0 then out_close_out env opts path newpath ret out log
                             else
                               (case do_compress h c (fe_mem_ok env) (fe_input env) out
                                       (opt_chunk_size opts) of
                                  (ret, out) \<Rightarrow>
                                    if ret \<noteq> 0
                                    then out_close_out env opts path newpath ret out log
                                    else out_close_out env opts path newpath 0 out
                                           (log @ restore_metadata_events path newpath)))))"

subsection \<open>\<open>tmain\<close>\<close>

text \<open>
  Modelled from the spec: \<open>tgetopt\<close>, \<open>parse_compression_level\<close>, \<open>parse_chunk_size\<close>,
  \<open>alloc_compressor\<close> and \<open>alloc_decompressor\<close> belong to the absent
  programs/prog_util.c and programs/tgetopt.c (the spec leaves CLI parsing out of scope).
  A run is given the successive results of \<open>tgetopt\<close> as pairs of the option character
  and \<open>toptarg\<close>, the two parsers and the two allocators as parameters, and for every
  file operand the environment of that file. Return values are C \<open>int\<close>s; all of them
  are small here, so they are modelled as integers, and \<open>|=\<close> is the bitwise or.
\<close>

record run_env =
  re_host :: endian
  re_argv0 :: string
  re_parse_compression_level :: "string \<Rightarrow> int"
  re_parse_chunk_size :: "string \<Rightarrow> u32"
  re_alloc_compressor :: "u32 \<Rightarrow> int \<Rightarrow> xpack_compressor option"
  re_alloc_decompressor :: "xpack_decompressor option"
  re_stdin :: file_env

definition is_xunpack :: "string \<Rightarrow> bool" where
  "is_xunpack program_invocation_name = (program_invocation_name = ''xunpack'')"

definition default_options :: "string \<Rightarrow> options" where
  "default_options program_invocation_name =
     \<lparr> opt_to_stdout = False,
       opt_decompress = is_xunpack program_invocation_name,
       opt_force = False,
       opt_keep = False,
       opt_compression_level = 6,
       opt_chunk_size = 524288,
       opt_suffix = ''xpack'' \<rparr>"

text \<open>The option loop: \<open>Inl\<close> is a \<open>return\<close> from inside the \<open>switch\<close> with that exit
  status, \<open>Inr\<close> the options when \<open>tgetopt\<close> has returned -1.\<close>

fun parse_options :: "run_env \<Rightarrow> (char \<times> string) list \<Rightarrow> options \<Rightarrow> int + options" where
  "parse_options re [] opts = Inr opts"
| "parse_options re ((opt_char, toptarg) # rest) opts =
     (if opt_char \<in> set ''123456789''
      then parse_options re rest
             (opts\<lparr>opt_compression_level := int (of_char opt_char) - int (of_char (CHR ''0''))\<rparr>)
      else if opt_char = CHR ''c'' then parse_options re rest (opts\<lparr>opt_to_stdout := True\<rparr>)
      else if opt_char = CHR ''d'' then parse_options re rest (opts\<lparr>opt_decompress := True\<rparr>)
      else if opt_char = CHR ''f'' then parse_options re rest (opts\<lparr>opt_force := True\<rparr>)
      else if opt_char = CHR ''h'' then Inl 0
      else if opt_char = CHR ''k'' then parse_options re rest (opts\<lparr>opt_keep := True\<rparr>)
      else if opt_char = CHR ''L''
      then (let level = re_parse_compression_level re toptarg
            in if level \<le> 0 then Inl 1
               else parse_options re rest (opts\<lparr>opt_compression_level := level\<rparr>))
      else if opt_char = CHR ''s''
      then (let sz = re_parse_chunk_size re toptarg
            in if sz = 0 then Inl 1
               else parse_options re rest (opts\<lparr>opt_chunk_size := sz\<rparr>))
      else if opt_char = CHR ''S'' then parse_options re rest (opts\<lparr>opt_suffix := toptarg\<rparr>)
      else if opt_char = CHR ''V'' then Inl 0
      else Inl 1)"

text \<open>The file operands: the single operand \<open>NULL\<close> (standard input) when there is none,
  and \<open>NULL\<close> in place of every operand "-".\<close>

definition file_list ::
  "run_env \<Rightarrow> (string \<times> file_env) list \<Rightarrow> (string option \<times> file_env) list" where
  "file_list re operands =
     (if operands = [] then [(None, re_stdin re)]
      else map (\<lambda>(arg, env). (if arg = ''-'' then None else Some arg, env)) operands)"

text \<open>The two \<open>for\<close> loops: \<open>ret |= -decompress_file(...)\<close> and
  \<open>ret |= -compress_file(...)\<close>.\<close>

definition decompress_files ::
  "endian \<Rightarrow> xpack_decompressor \<Rightarrow> options \<Rightarrow> (string option \<times> file_env) list \<Rightarrow> int \<Rightarrow> int" where
  "decompress_files h d opts files ret =
     foldl (\<lambda>ret (path, env). ret OR (- fr_ret (decompress_file h d env opts path))) ret files"

definition compress_files ::
  "endian \<Rightarrow> xpack_compressor \<Rightarrow> options \<Rightarrow> (string option \<times> file_env) list \<Rightarrow> int \<Rightarrow> int" where
  "compress_files h c opts files ret =
     foldl (\<lambda>ret (path, env). ret OR (- fr_ret (compress_file h c env opts path))) ret files"

text \<open>\<open>program_invocation_name = get_filename(argv[0])\<close>.\<close>

definition program_invocation_name :: "run_env \<Rightarrow> string" where
  "program_invocation_name re = drop (get_filename (re_argv0 re)) (re_argv0 re)"

definition tmain :: "run_env \<Rightarrow> (char \<times> string) list \<Rightarrow> (string \<times> file_env) list \<Rightarrow> int" where
  "tmain re getopt_results operands =
     (case parse_options re getopt_results (default_options (program_invocation_name re)) of
           Inl status \<Rightarrow> status
         | Inr opts \<Rightarrow>
             let files = file_list re operands
             in case (if opt_decompress opts
                      then (case re_alloc_decompressor re of
                              None \<Rightarrow> Inl (1 :: int)
                            | Some d \<Rightarrow> Inr (decompress_files (re_host re) d opts files 0))
                      else (case re_alloc_compressor re (opt_chunk_size opts)
                                   (opt_compression_level opts) of
                              None \<Rightarrow> Inl 1
                            | Some c \<Rightarrow> Inr (compress_files (re_host re) c opts files 0))) of
                  Inl status \<Rightarrow> status
                | Inr ret \<Rightarrow> if ret \<noteq> 0 \<and> ret \<noteq> 2 then 1 else ret)"

subsection \<open>The container format in the words of the specification\<close>

text \<open>
  The specification describes the container as a 16-byte little-endian file header
  followed by chunks, each an 8-byte header \<open>(stored_size, original_size)\<close> and
  \<open>stored_size\<close> bytes. The definitions of this subsection state that format
  independently of the program, for comparison with what the program reads and writes.
\<close>

text \<open>The fields of a file header and of a chunk header as they are stored on disk.\<close>

definition disk_file_header :: "u8 list \<Rightarrow> xpack_file_header" where
  "disk_file_header bs =
     \<lparr> magic = take 8 bs,
       chunk_size = from_le32 (take 4 (drop 8 bs)),
       header_size = from_le16 (take 2 (drop 12 bs)),
       version = bs ! 14,
       compression_level = bs ! 15 \<rparr>"


text \<open>The input cut into chunks of \<open>n\<close> bytes, the last one possibly shorter.\<close>

function input_chunks :: "nat \<Rightarrow> u8 list \<Rightarrow> u8 list list" where
  "input_chunks n bs =
     (if n = 0 \<or> bs = [] then [] else take n bs # input_chunks n (drop n bs))"
  by pat_completeness auto
termination
  by (relation "measure (\<lambda>(n, bs). length bs)") auto

declare input_chunks.simps [simp del]

text \<open>What is stored for a chunk: the chunk itself when the compressor, given
  \<open>out_capacity = original_size - 1\<close>, returns 0, and the compressed bytes otherwise;
  and the chunk as it appears in the container.\<close>

definition stored_bytes :: "xpack_compressor \<Rightarrow> u8 list \<Rightarrow> u8 list" where
  "stored_bytes c buf =
     (if c buf (length buf - 1) = [] then buf else c buf (length buf - 1))"

definition chunk_image :: "xpack_compressor \<Rightarrow> u8 list \<Rightarrow> u8 list" where
  "chunk_image c buf =
     le32 (of_nat (length (stored_bytes c buf))) @ le32 (of_nat (length buf)) @ stored_bytes c buf"

text \<open>The file header at the start of an input file and the chunk header at the
  start of a stream, as stored.\<close>

definition input_file_header :: "file_env \<Rightarrow> xpack_file_header" where
  "input_file_header env = disk_file_header (take 16 (in_bytes (fe_input env)))"



definition valid_chunk_size :: "u32 \<Rightarrow> bool" where
  "valid_chunk_size chunk_sz = (1024 \<le> chunk_sz \<and> chunk_sz \<le> 67108864)"

text \<open>\<open>decompress_file\<close> gets as far as reading the file header: a named input has the
  suffix (or output goes to standard output), the input could be opened, it is not a
  terminal (or \<open>-f\<close> was given), and \<open>stat_file\<close> returned 0.\<close>

definition reads_header :: "file_env \<Rightarrow> options \<Rightarrow> string option \<Rightarrow> bool" where
  "reads_header env opts path =
     (case decompress_newpath opts path of
        Inl ret \<Rightarrow> False
      | Inr newpath \<Rightarrow>
          fe_open_read env = 0 \<and> (opt_force opts \<or> \<not> fe_in_isatty env) \<and>
          fst (stat_file env (path = None) (opt_force opts \<or> newpath = None)) = 0)"

text \<open>The output name that \<open>decompress_file\<close> and \<open>compress_file\<close> use, \<open>None\<close> when
  there is none.\<close>

definition newpath_of :: "int + string option \<Rightarrow> string option" where
  "newpath_of r = (case r of Inl ret \<Rightarrow> None | Inr newpath \<Rightarrow> newpath)"

text \<open>An environment for concrete runs: a regular file with one link and the given
  content that opens for reading and is no terminal, and an output that opens empty,
  takes any number of bytes and closes without error.\<close>

definition plain_env :: "u8 list \<Rightarrow> file_env" where
  "plain_env bs =
     \<lparr> fe_open_read = 0,
       fe_input = \<lparr>in_bytes = bs, in_end = End_of_file\<rparr>,
       fe_in_isatty = False,
       fe_fstat = 0,
       fe_is_reg = True,
       fe_is_dir = False,
       fe_nlink = 1,
       fe_open_write = 0,
       fe_output = \<lparr>out_bytes = [], out_limit = None\<rparr>,
       fe_out_isatty = False,
       fe_close_out = 0,
       fe_mem_ok = True \<rparr>"

text \<open>The environment raises no obstacle: the input opens, is a regular file with at
  most one link and is no terminal, the chunk buffers are allocated, and the output opens
  empty, is no terminal, takes any number of bytes and closes without error.\<close>

definition env_ok :: "file_env \<Rightarrow> bool" where
  "env_ok env =
     (fe_open_read env = 0 \<and> \<not> fe_in_isatty env \<and> fe_fstat env = 0 \<and> fe_is_reg env \<and>
      fe_nlink env \<le> 1 \<and> fe_mem_ok env \<and> fe_open_write env = 0 \<and> \<not> fe_out_isatty env \<and>
      fe_output env = \<lparr>out_bytes = [], out_limit = None\<rparr> \<and> fe_close_out env = 0)"

text \<open>A stand-in decompressor for concrete runs: it refuses every input.\<close>

definition refusing_decompressor :: xpack_decompressor where
  "refusing_decompressor buf expected_out_size = (DECOMPRESS_BAD_DATA, [])"

text \<open>A stand-in compressor for concrete runs: it knows one input, four bytes 7, and
  encodes it in two bytes when the capacity allows.\<close>

definition toy_compressor :: xpack_compressor where
  "toy_compressor buf cap = (if buf = [7, 7, 7, 7] \<and> 2 \<le> cap then [7, 4] else [])"

text \<open>Whether the codec handle that the run needs was allocated, and the return values
  of \<open>decompress_file\<close> or \<open>compress_file\<close> for the file operands, in order.\<close>

definition allocated :: "run_env \<Rightarrow> options \<Rightarrow> bool" where
  "allocated re opts =
     (if opt_decompress opts then re_alloc_decompressor re \<noteq> None
      else re_alloc_compressor re (opt_chunk_size opts) (opt_compression_level opts) \<noteq> None)"

definition per_file_results :: "run_env \<Rightarrow> options \<Rightarrow> (string \<times> file_env) list \<Rightarrow> int list" where
  "per_file_results re opts operands =
     (if opt_decompress opts
      then (case re_alloc_decompressor re of
              None \<Rightarrow> []
            | Some d \<Rightarrow>
                map (\<lambda>(path, env). fr_ret (decompress_file (re_host re) d env opts path))
                    (file_list re operands))
      else (case re_alloc_compressor re (opt_chunk_size opts) (opt_compression_level opts) of
              None \<Rightarrow> []
            | Some c \<Rightarrow>
                map (\<lambda>(path, env). fr_ret (compress_file (re_host re) c env opts path))
                    (file_list re operands)))"

text \<open>A run environment for concrete runs: a little-endian host, the program invoked
  as \<open>xunpack\<close>, parsers that accept nothing, and allocators that return the stand-in
  codec.\<close>

definition plain_run :: run_env where
  "plain_run =
     \<lparr> re_host = Little_endian,
       re_argv0 = ''/usr/bin/xunpack'',
       re_parse_compression_level = (\<lambda>arg. 0),
       re_parse_chunk_size = (\<lambda>arg. 0),
       re_alloc_compressor = (\<lambda>chunk_sz level. Some toy_compressor),
       re_alloc_decompressor = Some refusing_decompressor,
       re_stdin = plain_env [] \<rparr>"

section \<open>Byte order lemmas\<close>

text \<open>The equations that unfold a run on concrete inputs.\<close>

lemmas run_defs =
  compress_file_def decompress_file_def decompress_from_header_def compress_newpath_def
  decompress_newpath_def has_suffix_def get_suffix_def get_filename_def default_options_def
  is_xunpack_def plain_env_def stat_file_def write_file_header_def bswap_file_header_def
  file_header_bytes_def file_header_of_bytes_def sizeof_file_header_def sizeof_chunk_header_def
  full_write_def do_compress_def do_decompress_def xread_def skip_bytes_def
  out_close_out_def out_close_in_def restore_metadata_events_def XPACK_MAGIC_def
  store_u32_def store_u16_def load_u32_def load_u16_def le32_bswap_def le16_bswap_def
  le32_def le16_def decompress_chunk_def chunk_header_of_bytes_def bswap_chunk_header_def
  Let_def


lemma from_le32_le32: "from_le32 (le32 v) = v"
proof (rule bit_word_eqI)
  fix n assume n: "n < LENGTH(32)"
  consider "n < 8" | "8 \<le> n" "n < 16" | "16 \<le> n" "n < 24" | "24 \<le> n" "n < 32"
    using n by fastforce
  then show "bit (from_le32 (le32 v)) n = bit v n"
    by cases (auto simp: le32_def bit_simps)
qed

lemma from_le16_le16: "from_le16 (le16 v) = v"
proof (rule bit_word_eqI)
  fix n assume n: "n < LENGTH(16)"
  consider "n < 8" | "8 \<le> n" "n < 16"
    using n by fastforce
  then show "bit (from_le16 (le16 v)) n = bit v n"
    by cases (auto simp: le16_def bit_simps)
qed

lemma le32_from_le32: "le32 (from_le32 [a, b, c, d]) = [a, b, c, d]"
proof -
  let ?w = "from_le32 [a, b, c, d]"
  have b0: "(ucast ?w :: u8) = a"
    by (rule bit_word_eqI) (auto simp: bit_simps)
  have b1: "(ucast (drop_bit 8 ?w) :: u8) = b"
    by (rule bit_word_eqI) (auto simp: bit_simps dest: bit_imp_le_length)
  have b2: "(ucast (drop_bit 16 ?w) :: u8) = c"
    by (rule bit_word_eqI) (auto simp: bit_simps dest: bit_imp_le_length)
  have b3: "(ucast (drop_bit 24 ?w) :: u8) = d"
    by (rule bit_word_eqI) (auto simp: bit_simps dest: bit_imp_le_length)
  show ?thesis unfolding le32_def using b0 b1 b2 b3 by simp
qed

lemma le16_from_le16: "le16 (from_le16 [a, b]) = [a, b]"
proof -
  let ?w = "from_le16 [a, b]"
  have b0: "(ucast ?w :: u8) = a"
    by (rule bit_word_eqI) (auto simp: bit_simps)
  have b1: "(ucast (drop_bit 8 ?w) :: u8) = b"
    by (rule bit_word_eqI) (auto simp: bit_simps dest: bit_imp_le_length)
  show ?thesis unfolding le16_def using b0 b1 by simp
qed

lemma length_le32 [simp]: "length (le32 v) = 4"
  by (simp add: le32_def)

lemma length_le16 [simp]: "length (le16 v) = 2"
  by (simp add: le16_def)

lemma le32_bswap32: "le32 (bswap32 v) = rev (le32 v)"
proof -
  obtain a b c d where r: "rev (le32 v) = [a, b, c, d]"
    by (simp add: le32_def)
  show ?thesis unfolding bswap32_def r by (rule le32_from_le32)
qed

lemma le16_bswap16: "le16 (bswap16 v) = rev (le16 v)"
proof -
  obtain a b where r: "rev (le16 v) = [a, b]"
    by (simp add: le16_def)
  show ?thesis unfolding bswap16_def r by (rule le16_from_le16)
qed

lemma store_u32_le32_bswap [simp]: "store_u32 h (le32_bswap h v) = le32 v"
  by (cases h) (simp_all add: store_u32_def le32_bswap_def le32_bswap32)

lemma store_u16_le16_bswap [simp]: "store_u16 h (le16_bswap h v) = le16 v"
  by (cases h) (simp_all add: store_u16_def le16_bswap_def le16_bswap16)

section \<open>The file header written by \<open>write_file_header\<close>\<close>

lemma full_write_ok:
  "fst (full_write out bs) = 0 \<Longrightarrow> out_bytes (snd (full_write out bs)) = out_bytes out @ bs"
  by (auto simp: full_write_def split: option.splits if_splits)

text \<open>
  Claim C5. \<open>write_file_header\<close> hands \<open>full_write\<close> exactly 16 bytes, in this order: the
  8 bytes of the magic "XPACK" and three zero bytes, \<open>chunk_size\<close> as a little-endian u32,
  the header size 16 as a little-endian u16, the version byte 1 and the compression level
  byte, on a little-endian and on a big-endian host alike; when the write succeeds, the
  output has grown by exactly these bytes.
\<close>

theorem write_file_header_layout:
  "write_file_header h out chunk_sz level =
     full_write out (XPACK_MAGIC @ le32 chunk_sz @ le16 16 @ [1] @ [of_int level])
   \<and> length (XPACK_MAGIC @ le32 chunk_sz @ le16 16 @ [1] @ [of_int level :: u8]) = 16
   \<and> (fst (write_file_header h out chunk_sz level) = 0 \<longrightarrow>
        out_bytes (snd (write_file_header h out chunk_sz level)) =
          out_bytes out @ XPACK_MAGIC @ le32 chunk_sz @ le16 16 @ [1] @ [of_int level])"
proof -
  have eq: "write_file_header h out chunk_sz level =
     full_write out (XPACK_MAGIC @ le32 chunk_sz @ le16 16 @ [1] @ [of_int level])"
    by (simp add: write_file_header_def bswap_file_header_def file_header_bytes_def
          sizeof_file_header_def XPACK_MAGIC_def)
  show ?thesis
    unfolding eq using full_write_ok [of out] by (simp add: XPACK_MAGIC_def)
qed

theorem write_file_header_layout_witness:
  "fst (write_file_header Big_endian \<lparr>out_bytes = [], out_limit = None\<rparr> 524288 6) = 0
   \<and> out_bytes (snd (write_file_header Big_endian \<lparr>out_bytes = [], out_limit = None\<rparr> 524288 6))
       = [0x58, 0x50, 0x41, 0x43, 0x4B, 0, 0, 0,  0, 0, 8, 0,  16, 0,  1,  6]"
  using write_file_header_layout [of Big_endian "\<lparr>out_bytes = [], out_limit = None\<rparr>" 524288 6]
  by (simp add: full_write_def XPACK_MAGIC_def le32_def le16_def)

section \<open>The chunks written by \<open>do_compress\<close>\<close>

lemma write_chunk_header_eq:
  "write_chunk_header h out s n = full_write out (le32 s @ le32 n)"
  by (simp add: write_chunk_header_def bswap_chunk_header_def chunk_header_bytes_def
        sizeof_chunk_header_def)

lemma full_write_eqD:
  "full_write out bs = (0, out') \<Longrightarrow> out_bytes out' = out_bytes out @ bs"
  using full_write_ok [of out bs] by simp

lemma stored_bytes_length:
  assumes "within_capacity c" "buf \<noteq> []"
  shows "length (stored_bytes c buf) \<le> length buf"
    and "c buf (length buf - 1) \<noteq> [] \<Longrightarrow> length (c buf (length buf - 1)) < length buf"
proof -
  have le: "length (c buf (length buf - 1)) \<le> length buf - 1"
    using assms(1) by (simp add: within_capacity_def)
  moreover have "length buf - 1 < length buf" using assms(2) by (cases buf) simp_all
  ultimately have lt: "length (c buf (length buf - 1)) < length buf" by linarith
  show "length (stored_bytes c buf) \<le> length buf"
    using lt by (simp add: stored_bytes_def)
  show "c buf (length buf - 1) \<noteq> [] \<Longrightarrow> length (c buf (length buf - 1)) < length buf"
    using lt by simp
qed

lemma compress_chunk_image:
  assumes cap: "within_capacity c"
      and ne: "buf \<noteq> []"
      and len: "length buf < 2 ^ 32"
      and ok: "compress_chunk h c out buf = (0, out')"
  shows "out_bytes out' = out_bytes out @ chunk_image c buf"
proof -
  let ?n = "length buf"
  let ?comp = "c buf (?n - 1)"
  have n1: "unat ((of_nat ?n :: u32) - 1) = ?n - 1"
  proof -
    have "(of_nat ?n :: u32) - 1 = of_nat (?n - 1)"
      using ne by (cases buf) simp_all
    then show ?thesis using len by (simp add: unat_of_nat)
  qed
  have cl: "length ?comp \<le> ?n - 1"
    using cap by (simp add: within_capacity_def)
  then have cl32: "length ?comp < 2 ^ 32" using len by simp
  have z: "((of_nat (length ?comp) :: u32) = 0) = (?comp = [])"
  proof
    assume "(of_nat (length ?comp) :: u32) = 0"
    then have "unat (of_nat (length ?comp) :: u32) = 0" by simp
    then show "?comp = []" using cl32 by (simp add: unat_of_nat)
  qed simp
  have ul: "unat (of_nat (length ?comp) :: u32) = length ?comp"
    using cl32 by (simp add: unat_of_nat)
  have un: "unat (of_nat ?n :: u32) = ?n"
    using len by (simp add: unat_of_nat)
  show ?thesis
  proof (cases "?comp = []")
    case True
    with ok n1 z un show ?thesis
      by (auto simp: compress_chunk_def write_chunk_header_eq chunk_image_def stored_bytes_def
            Let_def split: prod.splits if_splits dest!: full_write_eqD)
  next
    case False
    with ok n1 z ul show ?thesis
      by (auto simp: compress_chunk_def write_chunk_header_eq chunk_image_def stored_bytes_def
            Let_def split: prod.splits if_splits dest!: full_write_eqD)
  qed
qed


lemma xread_SomeD:
  "xread inp n = (Some buf, inp') \<Longrightarrow>
     buf = take n (in_bytes inp) \<and> in_bytes inp' = drop n (in_bytes inp) \<and> in_end inp' = in_end inp"
  by (auto simp: xread_def split: if_splits read_end.splits)

lemma compress_loop_image:
  "within_capacity c \<Longrightarrow> compress_loop h c cs inp out = (0, out') \<Longrightarrow>
         out_bytes out' = out_bytes out @
           concat (map (chunk_image c) (input_chunks (unat cs) (in_bytes inp)))"
proof (induction h c cs inp out rule: compress_loop.induct)
  case (1 h c cs inp out)
  note cap = "1.prems"(1) and run = "1.prems"(2)
  obtain r inp1 where xr: "xread inp (unat cs) = (r, inp1)" by (cases "xread inp (unat cs)")
  show ?case
  proof (cases r)
    case None
    with run xr show ?thesis by (simp add: compress_loop.simps)
  next
    case (Some buf)
    note xs = xr [unfolded Some]
    from xread_SomeD [OF xs] have buf: "buf = take (unat cs) (in_bytes inp)"
      and rest: "in_bytes inp1 = drop (unat cs) (in_bytes inp)" by simp_all
    show ?thesis
    proof (cases "buf = []")
      case True
      then have "unat cs = 0 \<or> in_bytes inp = []" using buf by auto
      then have "input_chunks (unat cs) (in_bytes inp) = []"
        by (auto simp: input_chunks.simps)
      with run xs True show ?thesis by (simp add: compress_loop.simps)
    next
      case False
      obtain ret out1 where cc: "compress_chunk h c out buf = (ret, out1)"
        by (cases "compress_chunk h c out buf")
      from run xs False cc have r0: "ret = 0"
        and rec: "compress_loop h c cs inp1 out1 = (0, out')"
        by (auto simp: compress_loop.simps [of h c cs inp out] split: if_splits)
      have "length buf \<le> unat cs" using buf by simp
      moreover have "unat cs < 2 ^ 32" using unsigned_less [of cs] by simp
      ultimately have len: "length buf < 2 ^ 32" by linarith
      have o1: "out_bytes out1 = out_bytes out @ chunk_image c buf"
        using compress_chunk_image [OF cap False len] cc r0 by simp
      have ih: "out_bytes out' = out_bytes out1 @
           concat (map (chunk_image c) (input_chunks (unat cs) (in_bytes inp1)))"
        using "1.IH" [OF xs [symmetric] refl False cc [symmetric] _ cap rec] r0 by simp
      have ne: "unat cs \<noteq> 0" "in_bytes inp \<noteq> []" using False buf by auto
      have "input_chunks (unat cs) (in_bytes inp) = buf # input_chunks (unat cs) (in_bytes inp1)"
        using ne buf rest by (subst input_chunks.simps) simp
      with o1 ih show ?thesis by simp
    qed
  qed
qed


lemma input_chunks_bounds:
  "buf \<in> set (input_chunks n bs) \<Longrightarrow> buf \<noteq> [] \<and> length buf \<le> n"
proof (induction n bs rule: input_chunks.induct)
  case (1 n bs)
  show ?case
  proof (cases "n = 0 \<or> bs = []")
    case True
    with "1.prems" show ?thesis by (simp add: input_chunks.simps)
  next
    case False
    with "1.prems" have "buf = take n bs \<or> buf \<in> set (input_chunks n (drop n bs))"
      by (subst (asm) input_chunks.simps) auto
    then show ?thesis
    proof
      assume "buf = take n bs"
      with False show ?thesis by auto
    next
      assume "buf \<in> set (input_chunks n (drop n bs))"
      with "1.IH" [OF False] show ?thesis by simp
    qed
  qed
qed

text \<open>
  Claim C3. When \<open>do_compress\<close> returns 0, the output has received, for every chunk of
  the input in order, the 8-byte header with \<open>stored_size\<close> and then \<open>original_size\<close>,
  both little-endian, followed by exactly \<open>stored_size\<close> stored bytes. For a compressor
  that keeps within \<open>out_capacity\<close>, \<open>stored_size\<close> equals \<open>original_size\<close> exactly when
  \<open>xpack_compress\<close> with \<open>out_capacity = original_size - 1\<close> returned 0, and then the
  stored bytes are the raw chunk; otherwise the stored bytes are the compressed bytes and
  their number is strictly less than \<open>original_size\<close>.
\<close>

theorem do_compress_chunk_layout:
  assumes cap: "within_capacity c"
      and run: "do_compress h c mem_ok inp out chunk_sz = (0, out')"
  shows "out_bytes out' =
           out_bytes out @ concat (map (chunk_image c) (input_chunks (unat chunk_sz) (in_bytes inp)))
         \<and> (\<forall>buf \<in> set (input_chunks (unat chunk_sz) (in_bytes inp)).
              0 < length buf \<and> length buf \<le> unat chunk_sz
              \<and> unat (of_nat (length buf) :: u32) = length buf
              \<and> unat (of_nat (length (stored_bytes c buf)) :: u32) = length (stored_bytes c buf)
              \<and> chunk_image c buf =
                  le32 (of_nat (length (stored_bytes c buf))) @ le32 (of_nat (length buf))
                    @ stored_bytes c buf
              \<and> ((of_nat (length (stored_bytes c buf)) :: u32) = of_nat (length buf)
                    \<longleftrightarrow> c buf (length buf - 1) = [])
              \<and> (c buf (length buf - 1) = [] \<longrightarrow> stored_bytes c buf = buf)
              \<and> (c buf (length buf - 1) \<noteq> [] \<longrightarrow>
                    stored_bytes c buf = c buf (length buf - 1)
                    \<and> length (c buf (length buf - 1)) < length buf))"
proof (intro conjI ballI)
  from run have loop: "compress_loop h c chunk_sz inp out = (0, out')"
    by (simp add: do_compress_def split: if_splits)
  show "out_bytes out' =
           out_bytes out @ concat (map (chunk_image c) (input_chunks (unat chunk_sz) (in_bytes inp)))"
    by (rule compress_loop_image [OF cap loop])
next
  fix buf assume mem: "buf \<in> set (input_chunks (unat chunk_sz) (in_bytes inp))"
  from input_chunks_bounds [OF mem] have ne: "buf \<noteq> []" and le: "length buf \<le> unat chunk_sz"
    by simp_all
  have "unat chunk_sz < 2 ^ 32" using unsigned_less [of chunk_sz] by simp
  with le have len: "length buf < 2 ^ 32" by linarith
  have sl: "length (stored_bytes c buf) \<le> length buf"
    by (rule stored_bytes_length(1) [OF cap ne])
  have cl: "c buf (length buf - 1) \<noteq> [] \<Longrightarrow> length (c buf (length buf - 1)) < length buf"
    by (rule stored_bytes_length(2) [OF cap ne])
  have un: "unat (of_nat (length buf) :: u32) = length buf"
    using len by (simp add: unat_of_nat)
  have us: "unat (of_nat (length (stored_bytes c buf)) :: u32) = length (stored_bytes c buf)"
    using len sl by (simp add: unat_of_nat)
  show "0 < length buf" using ne by simp
  show "length buf \<le> unat chunk_sz" by (rule le)
  show "unat (of_nat (length buf) :: u32) = length buf" by (rule un)
  show "unat (of_nat (length (stored_bytes c buf)) :: u32) = length (stored_bytes c buf)"
    by (rule us)
  show "chunk_image c buf =
          le32 (of_nat (length (stored_bytes c buf))) @ le32 (of_nat (length buf))
            @ stored_bytes c buf"
    by (simp add: chunk_image_def)
  show "((of_nat (length (stored_bytes c buf)) :: u32) = of_nat (length buf))
          = (c buf (length buf - 1) = [])"
  proof
    assume "(of_nat (length (stored_bytes c buf)) :: u32) = of_nat (length buf)"
    then have "unat (of_nat (length (stored_bytes c buf)) :: u32) = unat (of_nat (length buf) :: u32)"
      by simp
    then have "length (stored_bytes c buf) = length buf" using un us by simp
    then show "c buf (length buf - 1) = []"
      using cl by (auto simp: stored_bytes_def split: if_splits)
  next
    assume "c buf (length buf - 1) = []"
    then show "(of_nat (length (stored_bytes c buf)) :: u32) = of_nat (length buf)"
      by (simp add: stored_bytes_def)
  qed
  show "c buf (length buf - 1) = [] \<longrightarrow> stored_bytes c buf = buf"
    by (simp add: stored_bytes_def)
  show "c buf (length buf - 1) \<noteq> [] \<longrightarrow>
          stored_bytes c buf = c buf (length buf - 1)
          \<and> length (c buf (length buf - 1)) < length buf"
    using cl by (simp add: stored_bytes_def)
qed

theorem do_compress_chunk_layout_witness:
  "within_capacity toy_compressor
   \<and> do_compress Little_endian toy_compressor True
         \<lparr>in_bytes = [7, 7, 7, 7, 1, 2], in_end = End_of_file\<rparr>
         \<lparr>out_bytes = [], out_limit = None\<rparr> 4
       = (0, \<lparr>out_bytes = [2, 0, 0, 0, 4, 0, 0, 0, 7, 4, 2, 0, 0, 0, 2, 0, 0, 0, 1, 2],
              out_limit = None\<rparr>)
   \<and> [2, 0, 0, 0, 4, 0, 0, 0, 7, 4, 2, 0, 0, 0, 2, 0, 0, 0, 1, 2]
       = concat (map (chunk_image toy_compressor) (input_chunks 4 [7, 7, 7, 7, 1, 2]))"
proof -
  have cap: "within_capacity toy_compressor"
    by (simp add: within_capacity_def toy_compressor_def)
  have run: "do_compress Little_endian toy_compressor True
         \<lparr>in_bytes = [7, 7, 7, 7, 1, 2], in_end = End_of_file\<rparr>
         \<lparr>out_bytes = [], out_limit = None\<rparr> 4
       = (0, \<lparr>out_bytes = [2, 0, 0, 0, 4, 0, 0, 0, 7, 4, 2, 0, 0, 0, 2, 0, 0, 0, 1, 2],
              out_limit = None\<rparr>)"
    by (simp add: do_compress_def compress_loop.simps xread_def compress_chunk_def
          write_chunk_header_eq full_write_def toy_compressor_def le32_def)
  from do_compress_chunk_layout [OF cap run]
  have "[2, 0, 0, 0, 4, 0, 0, 0, 7, 4, 2, 0, 0, 0, 2, 0, 0, 0, 1, 2]
       = concat (map (chunk_image toy_compressor) (input_chunks 4 [7, 7, 7, 7, 1, 2]))"
    by simp
  with cap run show ?thesis by simp
qed

section \<open>Reading the headers\<close>

lemma length4_cases:
  assumes "length bs = 4"
  obtains a b c d where "bs = [a, b, c, d]"
  using assms by (cases bs; cases "tl bs"; cases "tl (tl bs)"; cases "tl (tl (tl bs))") auto

lemma length2_cases:
  assumes "length bs = 2"
  obtains a b where "bs = [a, b]"
  using assms by (cases bs; cases "tl bs") auto

lemma le32_bswap_load_u32: "length bs = 4 \<Longrightarrow> le32_bswap h (load_u32 h bs) = from_le32 bs"
proof -
  assume "length bs = 4"
  then obtain a b c d where bs: "bs = [a, b, c, d]" by (rule length4_cases)
  have "from_le32 (rev (le32 (from_le32 [d, c, b, a]))) = from_le32 [a, b, c, d]"
    by (simp only: le32_from_le32) simp
  then show ?thesis
    by (cases h) (simp_all add: bs le32_bswap_def load_u32_def bswap32_def)
qed

lemma le16_bswap_load_u16: "length bs = 2 \<Longrightarrow> le16_bswap h (load_u16 h bs) = from_le16 bs"
proof -
  assume "length bs = 2"
  then obtain a b where bs: "bs = [a, b]" by (rule length2_cases)
  have "from_le16 (rev (le16 (from_le16 [b, a]))) = from_le16 [a, b]"
    by (simp only: le16_from_le16) simp
  then show ?thesis
    by (cases h) (simp_all add: bs le16_bswap_def load_u16_def bswap16_def)
qed

lemma bswap_file_header_of_bytes:
  "length bs = 16 \<Longrightarrow> bswap_file_header h (file_header_of_bytes h bs) = disk_file_header bs"
  by (simp add: bswap_file_header_def file_header_of_bytes_def disk_file_header_def
        le32_bswap_load_u32 le16_bswap_load_u16)


lemma xread_enough:
  "n \<le> length (in_bytes inp) \<Longrightarrow>
     xread inp n = (Some (take n (in_bytes inp)), inp\<lparr>in_bytes := drop n (in_bytes inp)\<rparr>)"
  by (simp add: xread_def)

lemma xread_short:
  "length (in_bytes inp) < n \<Longrightarrow>
     xread inp n = (case in_end inp of
                      End_of_file \<Rightarrow> (Some (in_bytes inp), inp\<lparr>in_bytes := []\<rparr>)
                    | Read_failure \<Rightarrow> (None, inp\<lparr>in_bytes := []\<rparr>))"
  by (simp add: xread_def)



lemma stat_file_ok: "fst (stat_file env s a) = 0 \<Longrightarrow> stat_file env s a = (0, [])"
  by (auto simp: stat_file_def split: if_splits)

lemma out_close_in_fail:
  "ret \<noteq> 0 \<Longrightarrow>
     out_close_in opts path newpath ret out log =
       \<lparr> fr_ret = ret, fr_out = out, fr_log = log @ [Xclose_in] \<rparr>"
  by (simp add: out_close_in_def split: option.splits)

lemma decompress_file_reads_header:
  "reads_header env opts path \<Longrightarrow>
     decompress_file h d env opts path =
       decompress_from_header h d env opts path (newpath_of (decompress_newpath opts path)) []"
  by (auto simp: reads_header_def decompress_file_def newpath_of_def
        split: sum.splits dest!: stat_file_ok)

lemma take8_magic: "take 8 XPACK_MAGIC = XPACK_MAGIC"
  by (simp add: XPACK_MAGIC_def)

lemma header_short:
  assumes "length (in_bytes (fe_input env)) < 16"
  shows "decompress_from_header h d env opts path np log =
           \<lparr> fr_ret = -1, fr_out = None,
             fr_log = log @ (case in_end (fe_input env) of
                               End_of_file \<Rightarrow> [Msg Not_xpack_format]
                             | Read_failure \<Rightarrow> []) @ [Xclose_in] \<rparr>"
  using assms
  by (simp add: decompress_from_header_def sizeof_file_header_def xread_short out_close_in_fail
        split: read_end.splits)

lemma header_read:
  assumes "16 \<le> length (in_bytes (fe_input env))"
  shows "xread (fe_input env) 16 =
           (Some (take 16 (in_bytes (fe_input env))),
            (fe_input env)\<lparr>in_bytes := drop 16 (in_bytes (fe_input env))\<rparr>)"
    and "length (take 16 (in_bytes (fe_input env))) = 16"
    and "bswap_file_header h (file_header_of_bytes h (take 16 (in_bytes (fe_input env))))
           = disk_file_header (take 16 (in_bytes (fe_input env)))"
  using assms by (simp_all add: xread_enough bswap_file_header_of_bytes)

lemma header_bad_magic:
  assumes "16 \<le> length (in_bytes (fe_input env))"
      and "magic (disk_file_header (take 16 (in_bytes (fe_input env)))) \<noteq> XPACK_MAGIC"
  shows "decompress_from_header h d env opts path np log =
           \<lparr> fr_ret = -1, fr_out = None, fr_log = log @ [Msg Not_xpack_format, Xclose_in] \<rparr>"
  using assms
  by (simp add: decompress_from_header_def sizeof_file_header_def header_read [OF assms(1)]
        take8_magic out_close_in_fail Let_def)

lemma header_bad_version:
  assumes "16 \<le> length (in_bytes (fe_input env))"
      and "magic (disk_file_header (take 16 (in_bytes (fe_input env)))) = XPACK_MAGIC"
      and "version (disk_file_header (take 16 (in_bytes (fe_input env)))) \<noteq> 1"
  shows "decompress_from_header h d env opts path np log =
           \<lparr> fr_ret = -1, fr_out = None,
             fr_log = log @ [Msg (Unsupported_version
                (version (disk_file_header (take 16 (in_bytes (fe_input env)))))), Xclose_in] \<rparr>"
  using assms
  by (simp add: decompress_from_header_def sizeof_file_header_def header_read [OF assms(1)]
        take8_magic out_close_in_fail Let_def)

lemma header_bad_size:
  assumes "16 \<le> length (in_bytes (fe_input env))"
      and "magic (disk_file_header (take 16 (in_bytes (fe_input env)))) = XPACK_MAGIC"
      and "version (disk_file_header (take 16 (in_bytes (fe_input env)))) = 1"
      and "unat (header_size (disk_file_header (take 16 (in_bytes (fe_input env))))) < 16"
  shows "decompress_from_header h d env opts path np log =
           \<lparr> fr_ret = -1, fr_out = None,
             fr_log = log @ [Msg (Incorrect_header_size
                (header_size (disk_file_header (take 16 (in_bytes (fe_input env)))))), Xclose_in] \<rparr>"
  using assms
  by (simp add: decompress_from_header_def sizeof_file_header_def header_read [OF assms(1)]
        take8_magic out_close_in_fail Let_def)


lemma header_rejected:
  assumes "16 \<le> length (in_bytes (fe_input env))"
      and "magic (disk_file_header (take 16 (in_bytes (fe_input env)))) \<noteq> XPACK_MAGIC
           \<or> version (disk_file_header (take 16 (in_bytes (fe_input env)))) \<noteq> 1
           \<or> unat (header_size (disk_file_header (take 16 (in_bytes (fe_input env))))) < 16
           \<or> chunk_size (disk_file_header (take 16 (in_bytes (fe_input env)))) < 1024
           \<or> chunk_size (disk_file_header (take 16 (in_bytes (fe_input env)))) > 67108864"
  shows "fr_ret (decompress_from_header h d env opts path np log) = -1
         \<and> fr_out (decompress_from_header h d env opts path np log) = None"
  using assms
  by (auto simp add: decompress_from_header_def sizeof_file_header_def header_read [OF assms(1)]
        take8_magic out_close_in_fail Let_def)



lemma plain_reads_header:
  "reads_header (plain_env bs) (default_options ''xunpack'') (Some ''a.xpack'')"
  by (simp add: reads_header_def plain_env_def default_options_def decompress_newpath_def
        get_suffix_def get_filename_def stat_file_def)


lemma skip_bytes_enough:
  "n \<le> length (in_bytes inp) \<Longrightarrow>
     skip_bytes inp n = (0, inp\<lparr>in_bytes := drop n (in_bytes inp)\<rparr>)"
  by (simp add: skip_bytes_def xread_enough)

lemma out_close_out_result:
  "fr_ret (out_close_out env opts path np ret out log) = (if ret = 0 then fe_close_out env else ret)
   \<and> fr_out (out_close_out env opts path np ret out log) = Some out"
  by (simp add: out_close_out_def out_close_in_def Let_def)

lemma header_accepted:
  assumes len: "16 \<le> length (in_bytes (fe_input env))"
      and m: "magic (disk_file_header (take 16 (in_bytes (fe_input env)))) = XPACK_MAGIC"
      and v: "version (disk_file_header (take 16 (in_bytes (fe_input env)))) = 1"
      and hs: "16 \<le> unat (header_size (disk_file_header (take 16 (in_bytes (fe_input env)))))"
      and cs: "1024 \<le> chunk_size (disk_file_header (take 16 (in_bytes (fe_input env))))"
              "chunk_size (disk_file_header (take 16 (in_bytes (fe_input env)))) \<le> 67108864"
      and extra: "unat (header_size (disk_file_header (take 16 (in_bytes (fe_input env)))))
                    \<le> length (in_bytes (fe_input env))"
      and ow: "fe_open_write env = 0"
  shows "decompress_from_header h d env opts path np log =
           (case do_decompress h d (fe_mem_ok env)
                   ((fe_input env)\<lparr>in_bytes :=
                      drop (unat (header_size (disk_file_header (take 16 (in_bytes (fe_input env))))))
                        (in_bytes (fe_input env))\<rparr>)
                   (fe_output env)
                   (chunk_size (disk_file_header (take 16 (in_bytes (fe_input env))))) of
              (ret, out, msgs) \<Rightarrow>
                out_close_out env opts path np ret out
                  (log @ [Xopen_for_write np] @ msgs @
                     (if ret = 0 then restore_metadata_events path np else [])))"
proof -
  let ?bs = "in_bytes (fe_input env)"
  let ?hdr = "disk_file_header (take 16 ?bs)"
  let ?inp1 = "(fe_input env)\<lparr>in_bytes := drop 16 ?bs\<rparr>"
  have sk: "skip_bytes ?inp1 (unat (header_size ?hdr) - 16)
              = (0, (fe_input env)\<lparr>in_bytes := drop (unat (header_size ?hdr)) ?bs\<rparr>)"
  proof -
    have "unat (header_size ?hdr) - 16 \<le> length (in_bytes ?inp1)"
      using extra by simp
    from skip_bytes_enough [OF this] show ?thesis using hs by simp
  qed
  show ?thesis
    using m v hs cs ow len
    by (simp add: decompress_from_header_def sizeof_file_header_def header_read [OF len]
          take8_magic Let_def not_less sk split: prod.splits)
qed


lemma stat_file_no_open: "Xopen_for_write x \<notin> set (snd (stat_file env s a))"
  by (simp add: stat_file_def)

lemma not_reads_header:
  assumes "\<not> reads_header env opts path"
  shows "fr_ret (decompress_file h d env opts path) \<noteq> 0
         \<and> fr_out (decompress_file h d env opts path) = None
         \<and> Xopen_for_write x \<notin> set (fr_log (decompress_file h d env opts path))"
proof (cases "decompress_newpath opts path")
  case (Inl r)
  then have "r = -2"
    by (auto simp: decompress_newpath_def split: option.splits if_splits)
  with Inl show ?thesis by (simp add: decompress_file_def)
next
  case (Inr np)
  obtain r msgs where st: "stat_file env (path = None) (opt_force opts \<or> np = None) = (r, msgs)"
    by (cases "stat_file env (path = None) (opt_force opts \<or> np = None)")
  have m: "Xopen_for_write x \<notin> set msgs"
    using stat_file_no_open [of x env "path = None" "opt_force opts \<or> np = None"] st by simp
  from assms Inr st have "fe_open_read env \<noteq> 0 \<or> (\<not> opt_force opts \<and> fe_in_isatty env) \<or> r \<noteq> 0"
    by (auto simp: reads_header_def)
  then show ?thesis
    using m by (auto simp: decompress_file_def Inr st out_close_in_fail)
qed

lemma header_rejected_log:
  assumes bad: "length (in_bytes (fe_input env)) < 16
           \<or> magic (disk_file_header (take 16 (in_bytes (fe_input env)))) \<noteq> XPACK_MAGIC
           \<or> version (disk_file_header (take 16 (in_bytes (fe_input env)))) \<noteq> 1
           \<or> unat (header_size (disk_file_header (take 16 (in_bytes (fe_input env))))) < 16
           \<or> chunk_size (disk_file_header (take 16 (in_bytes (fe_input env)))) < 1024
           \<or> chunk_size (disk_file_header (take 16 (in_bytes (fe_input env)))) > 67108864"
      and log: "Xopen_for_write x \<notin> set log"
  shows "fr_ret (decompress_from_header h d env opts path np log) = -1
         \<and> fr_out (decompress_from_header h d env opts path np log) = None
         \<and> Xopen_for_write x \<notin> set (fr_log (decompress_from_header h d env opts path np log))"
proof (cases "length (in_bytes (fe_input env)) < 16")
  case True
  show ?thesis
    using log by (simp add: header_short [OF True] split: read_end.splits)
next
  case False
  then have len: "16 \<le> length (in_bytes (fe_input env))" by simp
  show ?thesis
    using bad False log
    by (auto simp add: decompress_from_header_def sizeof_file_header_def header_read [OF len]
          take8_magic out_close_in_fail Let_def)
qed

lemma bad_header_no_output:
  assumes bad: "length (in_bytes (fe_input env)) < 16
           \<or> magic (input_file_header env) \<noteq> XPACK_MAGIC
           \<or> version (input_file_header env) \<noteq> 1
           \<or> unat (header_size (input_file_header env)) < 16
           \<or> \<not> valid_chunk_size (chunk_size (input_file_header env))"
  shows "fr_ret (decompress_file h d env opts path) \<noteq> 0
         \<and> fr_out (decompress_file h d env opts path) = None
         \<and> Xopen_for_write x \<notin> set (fr_log (decompress_file h d env opts path))"
proof (cases "reads_header env opts path")
  case False
  then show ?thesis by (rule not_reads_header)
next
  case True
  have b: "length (in_bytes (fe_input env)) < 16
           \<or> magic (disk_file_header (take 16 (in_bytes (fe_input env)))) \<noteq> XPACK_MAGIC
           \<or> version (disk_file_header (take 16 (in_bytes (fe_input env)))) \<noteq> 1
           \<or> unat (header_size (disk_file_header (take 16 (in_bytes (fe_input env))))) < 16
           \<or> chunk_size (disk_file_header (take 16 (in_bytes (fe_input env)))) < 1024
           \<or> chunk_size (disk_file_header (take 16 (in_bytes (fe_input env)))) > 67108864"
    using bad by (auto simp: input_file_header_def valid_chunk_size_def not_le)
  have e: "Xopen_for_write x \<notin> set []" by simp
  show ?thesis
    using header_rejected_log [OF b e, of h d opts path "newpath_of (decompress_newpath opts path)"]
    by (simp add: decompress_file_reads_header [OF True])
qed

section \<open>Size checks of \<open>do_decompress\<close> and \<open>decompress_file\<close>\<close>




section \<open>Rejection of foreign and unsupported files\<close>

text \<open>
  Claim C7, as amended. For every input whose first 16 bytes cannot be read, whose magic
  differs from "XPACK" and three zero bytes, or whose version byte differs from 1,
  \<open>decompress_file\<close> fails without ever calling \<open>xopen_for_write\<close>, so before any output
  file is created or written. In a run that gets as far as reading the header, the
  diagnostic is "not in XPACK format" for an input that ends before 16 bytes and for a
  wrong magic, and "unsupported version" for a wrong version under the right magic; when
  the read of the header fails, \<open>decompress_file\<close> returns -1 and prints neither.
\<close>

theorem bad_header_rejected_before_output:
  "(length (in_bytes (fe_input env)) < 16
    \<or> magic (input_file_header env) \<noteq> XPACK_MAGIC
    \<or> version (input_file_header env) \<noteq> 1 \<longrightarrow>
       fr_ret (decompress_file h d env opts path) \<noteq> 0
       \<and> fr_out (decompress_file h d env opts path) = None
       \<and> Xopen_for_write np \<notin> set (fr_log (decompress_file h d env opts path)))
   \<and> (reads_header env opts path \<longrightarrow>
        (length (in_bytes (fe_input env)) < 16 \<and> in_end (fe_input env) = End_of_file \<longrightarrow>
           fr_ret (decompress_file h d env opts path) = -1
           \<and> fr_log (decompress_file h d env opts path) = [Msg Not_xpack_format, Xclose_in])
        \<and> (length (in_bytes (fe_input env)) < 16 \<and> in_end (fe_input env) = Read_failure \<longrightarrow>
           fr_ret (decompress_file h d env opts path) = -1
           \<and> fr_log (decompress_file h d env opts path) = [Xclose_in])
        \<and> (16 \<le> length (in_bytes (fe_input env))
            \<and> magic (input_file_header env) \<noteq> XPACK_MAGIC \<longrightarrow>
              fr_ret (decompress_file h d env opts path) = -1
              \<and> fr_log (decompress_file h d env opts path) = [Msg Not_xpack_format, Xclose_in])
        \<and> (16 \<le> length (in_bytes (fe_input env))
            \<and> magic (input_file_header env) = XPACK_MAGIC
            \<and> version (input_file_header env) \<noteq> 1 \<longrightarrow>
              fr_ret (decompress_file h d env opts path) = -1
              \<and> fr_log (decompress_file h d env opts path) =
                  [Msg (Unsupported_version (version (input_file_header env))), Xclose_in]))"
proof (intro conjI impI)
  assume a: "length (in_bytes (fe_input env)) < 16
    \<or> magic (input_file_header env) \<noteq> XPACK_MAGIC
    \<or> version (input_file_header env) \<noteq> 1"
  then have rej: "fr_ret (decompress_file h d env opts path) \<noteq> 0
         \<and> fr_out (decompress_file h d env opts path) = None
         \<and> Xopen_for_write np \<notin> set (fr_log (decompress_file h d env opts path))"
    by (intro bad_header_no_output) blast
  show "fr_ret (decompress_file h d env opts path) \<noteq> 0" using rej by blast
  show "fr_out (decompress_file h d env opts path) = None" using rej by blast
  show "Xopen_for_write np \<notin> set (fr_log (decompress_file h d env opts path))" using rej by blast
next
  assume rh: "reads_header env opts path"
  note df = decompress_file_reads_header [OF rh]
  {
    assume s: "length (in_bytes (fe_input env)) < 16 \<and> in_end (fe_input env) = End_of_file"
    then have short: "length (in_bytes (fe_input env)) < 16" by blast
    note hs = header_short [OF short, of h d opts path _ "[]"]
    show "fr_ret (decompress_file h d env opts path) = -1"
      by (simp add: df hs)
    show "fr_log (decompress_file h d env opts path) = [Msg Not_xpack_format, Xclose_in]"
      using s by (simp add: df hs)
  }
  {
    assume s: "length (in_bytes (fe_input env)) < 16 \<and> in_end (fe_input env) = Read_failure"
    then have short: "length (in_bytes (fe_input env)) < 16" by blast
    note hs = header_short [OF short, of h d opts path _ "[]"]
    show "fr_ret (decompress_file h d env opts path) = -1"
      by (simp add: df hs)
    show "fr_log (decompress_file h d env opts path) = [Xclose_in]"
      using s by (simp add: df hs)
  }
  {
    assume a: "16 \<le> length (in_bytes (fe_input env))
       \<and> magic (input_file_header env) \<noteq> XPACK_MAGIC"
    then have len: "16 \<le> length (in_bytes (fe_input env))"
      and bad: "magic (disk_file_header (take 16 (in_bytes (fe_input env)))) \<noteq> XPACK_MAGIC"
      by (simp_all add: input_file_header_def)
    note hm = header_bad_magic [OF len bad, of h d opts path _ "[]"]
    show "fr_ret (decompress_file h d env opts path) = -1" by (simp add: df hm)
    show "fr_log (decompress_file h d env opts path) = [Msg Not_xpack_format, Xclose_in]"
      by (simp add: df hm)
  }
  {
    assume a: "16 \<le> length (in_bytes (fe_input env))
       \<and> magic (input_file_header env) = XPACK_MAGIC
       \<and> version (input_file_header env) \<noteq> 1"
    then have len: "16 \<le> length (in_bytes (fe_input env))"
      and m: "magic (disk_file_header (take 16 (in_bytes (fe_input env)))) = XPACK_MAGIC"
      and bad: "version (disk_file_header (take 16 (in_bytes (fe_input env)))) \<noteq> 1"
      by (simp_all add: input_file_header_def)
    note hv = header_bad_version [OF len m bad, of h d opts path _ "[]"]
    show "fr_ret (decompress_file h d env opts path) = -1" by (simp add: df hv)
    show "fr_log (decompress_file h d env opts path) =
               [Msg (Unsupported_version (version (input_file_header env))), Xclose_in]"
      by (simp add: df hv input_file_header_def)
  }
qed

theorem bad_header_rejected_before_output_witness:
  "(reads_header (plain_env [0x58, 0x50]) (default_options ''xunpack'') (Some ''a.xpack'')
    \<and> length (in_bytes (fe_input (plain_env [0x58, 0x50]))) < 16
    \<and> in_end (fe_input (plain_env [0x58, 0x50])) = End_of_file)
   \<and> decompress_file Little_endian refusing_decompressor (plain_env [0x58, 0x50])
        (default_options ''xunpack'') (Some ''a.xpack'')
       = \<lparr> fr_ret = -1, fr_out = None, fr_log = [Msg Not_xpack_format, Xclose_in] \<rparr>
   \<and> (16 \<le> length (in_bytes (fe_input
             (plain_env [0x58, 0x50, 0x41, 0x43, 0x4B, 0, 0, 1, 0, 0, 8, 0, 16, 0, 1, 6])))
       \<and> magic (input_file_header
             (plain_env [0x58, 0x50, 0x41, 0x43, 0x4B, 0, 0, 1, 0, 0, 8, 0, 16, 0, 1, 6]))
           \<noteq> XPACK_MAGIC)
   \<and> decompress_file Little_endian refusing_decompressor
        (plain_env [0x58, 0x50, 0x41, 0x43, 0x4B, 0, 0, 1, 0, 0, 8, 0, 16, 0, 1, 6])
        (default_options ''xunpack'') (Some ''a.xpack'')
       = \<lparr> fr_ret = -1, fr_out = None, fr_log = [Msg Not_xpack_format, Xclose_in] \<rparr>
   \<and> (16 \<le> length (in_bytes (fe_input (plain_env (XPACK_MAGIC @ [0, 0, 8, 0, 16, 0, 2, 6]))))
       \<and> version (input_file_header (plain_env (XPACK_MAGIC @ [0, 0, 8, 0, 16, 0, 2, 6]))) \<noteq> 1
       \<and> magic (input_file_header (plain_env (XPACK_MAGIC @ [0, 0, 8, 0, 16, 0, 2, 6])))
           = XPACK_MAGIC)
   \<and> decompress_file Little_endian refusing_decompressor
        (plain_env (XPACK_MAGIC @ [0, 0, 8, 0, 16, 0, 2, 6]))
        (default_options ''xunpack'') (Some ''a.xpack'')
       = \<lparr> fr_ret = -1, fr_out = None, fr_log = [Msg (Unsupported_version 2), Xclose_in] \<rparr>"
proof -
  let ?e1 = "plain_env [0x58, 0x50]"
  let ?e2 = "plain_env [0x58, 0x50, 0x41, 0x43, 0x4B, 0, 0, 1, 0, 0, 8, 0, 16, 0, 1, 6]"
  let ?e3 = "plain_env (XPACK_MAGIC @ [0, 0, 8, 0, 16, 0, 2, 6])"
  let ?o = "default_options ''xunpack''"
  let ?p = "Some ''a.xpack''"
  let ?D = "\<lambda>e. decompress_file Little_endian refusing_decompressor e ?o ?p"
  have h2: "input_file_header ?e2 =
      \<lparr>magic = [0x58, 0x50, 0x41, 0x43, 0x4B, 0, 0, 1], chunk_size = 524288, header_size = 16,
       version = 1, compression_level = 6\<rparr>"
    by (simp add: input_file_header_def disk_file_header_def plain_env_def)
  have h3: "input_file_header ?e3 =
      \<lparr>magic = XPACK_MAGIC, chunk_size = 524288, header_size = 16, version = 2,
       compression_level = 6\<rparr>"
    by (simp add: input_file_header_def disk_file_header_def plain_env_def XPACK_MAGIC_def)
  have a1: "length (in_bytes (fe_input ?e1)) < 16 \<and> in_end (fe_input ?e1) = End_of_file"
    by (simp add: plain_env_def)
  have a2: "16 \<le> length (in_bytes (fe_input ?e2)) \<and> magic (input_file_header ?e2) \<noteq> XPACK_MAGIC"
    by (simp add: h2 XPACK_MAGIC_def) (simp add: plain_env_def)
  have a3: "16 \<le> length (in_bytes (fe_input ?e3)) \<and> version (input_file_header ?e3) \<noteq> 1
       \<and> magic (input_file_header ?e3) = XPACK_MAGIC"
    by (simp add: h3) (simp add: plain_env_def XPACK_MAGIC_def)
  from bad_header_rejected_before_output [where env = ?e1 and opts = ?o and path = ?p
        and h = Little_endian and d = refusing_decompressor] plain_reads_header [of "[0x58, 0x50]"] a1
  have r1: "fr_ret (?D ?e1) = -1 \<and> fr_out (?D ?e1) = None
            \<and> fr_log (?D ?e1) = [Msg Not_xpack_format, Xclose_in]"
    by blast
  from bad_header_rejected_before_output [where env = ?e2 and opts = ?o and path = ?p
        and h = Little_endian and d = refusing_decompressor] plain_reads_header a2
  have r2: "fr_ret (?D ?e2) = -1 \<and> fr_out (?D ?e2) = None
            \<and> fr_log (?D ?e2) = [Msg Not_xpack_format, Xclose_in]"
    by blast
  from bad_header_rejected_before_output [where env = ?e3 and opts = ?o and path = ?p
        and h = Little_endian and d = refusing_decompressor] plain_reads_header a3
  have r3: "fr_ret (?D ?e3) = -1 \<and> fr_out (?D ?e3) = None
            \<and> fr_log (?D ?e3) = [Msg (Unsupported_version (version (input_file_header ?e3))),
                                  Xclose_in]"
    by blast
  have v3: "version (input_file_header ?e3) = 2" by (simp add: h3)
  have eq: "\<And>r ret out log. fr_ret r = ret \<and> fr_out r = out \<and> fr_log r = log
              \<Longrightarrow> r = \<lparr> fr_ret = ret, fr_out = out, fr_log = log \<rparr>"
    by auto
  show ?thesis
    using plain_reads_header [of "[0x58, 0x50]"] a1 a2 a3 eq [OF r1] eq [OF r2]
      eq [OF r3 [unfolded v3]]
    by blast
qed

text \<open>
  The claim as first written promises "not in XPACK format" whenever the first 16 bytes
  cannot be read, and "unsupported version" whenever the version byte differs from 1.
  When the read of the header fails, \<open>decompress_file\<close> leaves through \<open>ret < 0\<close> and
  prints neither; and a header with a wrong magic and version 2 is diagnosed "not in XPACK
  format", not "unsupported version".
\<close>

theorem bad_header_rejected_before_output_counterexample:
  "length (in_bytes (fe_input
      ((plain_env [])\<lparr>fe_input := \<lparr>in_bytes = [0x58, 0x50], in_end = Read_failure\<rparr>\<rparr>))) < 16
   \<and> decompress_file Little_endian refusing_decompressor
        ((plain_env [])\<lparr>fe_input := \<lparr>in_bytes = [0x58, 0x50], in_end = Read_failure\<rparr>\<rparr>)
        (default_options ''xunpack'') (Some ''a.xpack'')
       = \<lparr> fr_ret = -1, fr_out = None, fr_log = [Xclose_in] \<rparr>
   \<and> Msg Not_xpack_format \<notin> set (fr_log
        (decompress_file Little_endian refusing_decompressor
          ((plain_env [])\<lparr>fe_input := \<lparr>in_bytes = [0x58, 0x50], in_end = Read_failure\<rparr>\<rparr>)
          (default_options ''xunpack'') (Some ''a.xpack'')))
   \<and> version (input_file_header
        (plain_env [0x58, 0x50, 0x41, 0x43, 0x4B, 0, 0, 1, 0, 0, 8, 0, 16, 0, 2, 6])) = 2
   \<and> decompress_file Little_endian refusing_decompressor
        (plain_env [0x58, 0x50, 0x41, 0x43, 0x4B, 0, 0, 1, 0, 0, 8, 0, 16, 0, 2, 6])
        (default_options ''xunpack'') (Some ''a.xpack'')
       = \<lparr> fr_ret = -1, fr_out = None, fr_log = [Msg Not_xpack_format, Xclose_in] \<rparr>
   \<and> Msg (Unsupported_version 2) \<notin> set (fr_log
        (decompress_file Little_endian refusing_decompressor
          (plain_env [0x58, 0x50, 0x41, 0x43, 0x4B, 0, 0, 1, 0, 0, 8, 0, 16, 0, 2, 6])
          (default_options ''xunpack'') (Some ''a.xpack'')))"
proof -
  have run1: "decompress_file Little_endian refusing_decompressor
        ((plain_env [])\<lparr>fe_input := \<lparr>in_bytes = [0x58, 0x50], in_end = Read_failure\<rparr>\<rparr>)
        (default_options ''xunpack'') (Some ''a.xpack'')
       = \<lparr> fr_ret = -1, fr_out = None, fr_log = [Xclose_in] \<rparr>"
    by (simp add: run_defs)
  have run2: "decompress_file Little_endian refusing_decompressor
        (plain_env [0x58, 0x50, 0x41, 0x43, 0x4B, 0, 0, 1, 0, 0, 8, 0, 16, 0, 2, 6])
        (default_options ''xunpack'') (Some ''a.xpack'')
       = \<lparr> fr_ret = -1, fr_out = None, fr_log = [Msg Not_xpack_format, Xclose_in] \<rparr>"
    by (simp add: run_defs)
  have len: "length (in_bytes (fe_input
      ((plain_env [])\<lparr>fe_input := \<lparr>in_bytes = [0x58, 0x50], in_end = Read_failure\<rparr>\<rparr>))) < 16"
    by simp
  have v: "version (input_file_header
        (plain_env [0x58, 0x50, 0x41, 0x43, 0x4B, 0, 0, 1, 0, 0, 8, 0, 16, 0, 2, 6])) = 2"
    by (simp add: input_file_header_def disk_file_header_def plain_env_def)
  show ?thesis unfolding run1 run2 using len v by simp
qed

section \<open>The header size field\<close>

text \<open>
  Claim C9, as amended. \<open>decompress_file\<close> fails and opens no output for every file
  header whose \<open>header_size\<close> is below 16, with the diagnostic "incorrect header size"
  when the run gets as far as reading the header and the header has the right magic and
  version 1. It accepts a \<open>header_size\<close> of 16 or more when the header also has the right
  magic, version 1 and a supported chunk size, the \<open>header_size - 16\<close> extra bytes are
  there to skip, and the output opens: the result is then that of \<open>do_decompress\<close>
  reading the chunks from offset \<open>header_size\<close> of the input, followed by the cleanup.
\<close>

theorem header_size_check:
  "(16 \<le> length (in_bytes (fe_input env))
    \<and> unat (header_size (input_file_header env)) < 16 \<longrightarrow>
      fr_ret (decompress_file h d env opts path) \<noteq> 0
      \<and> fr_out (decompress_file h d env opts path) = None
      \<and> (reads_header env opts path
           \<and> magic (input_file_header env) = XPACK_MAGIC
           \<and> version (input_file_header env) = 1 \<longrightarrow>
             fr_ret (decompress_file h d env opts path) = -1
             \<and> fr_log (decompress_file h d env opts path) =
                 [Msg (Incorrect_header_size (header_size (input_file_header env))), Xclose_in]))
   \<and> (reads_header env opts path \<and> 16 \<le> length (in_bytes (fe_input env))
       \<and> magic (input_file_header env) = XPACK_MAGIC \<and> version (input_file_header env) = 1
       \<and> 16 \<le> unat (header_size (input_file_header env))
       \<and> unat (header_size (input_file_header env)) \<le> length (in_bytes (fe_input env))
       \<and> valid_chunk_size (chunk_size (input_file_header env))
       \<and> fe_open_write env = 0 \<longrightarrow>
        decompress_file h d env opts path =
          (case do_decompress h d (fe_mem_ok env)
                  ((fe_input env)\<lparr>in_bytes :=
                      drop (unat (header_size (input_file_header env))) (in_bytes (fe_input env))\<rparr>)
                  (fe_output env) (chunk_size (input_file_header env)) of
             (ret, out, msgs) \<Rightarrow>
               out_close_out env opts path (newpath_of (decompress_newpath opts path)) ret out
                 ([Xopen_for_write (newpath_of (decompress_newpath opts path))] @ msgs @
                    (if ret = 0
                     then restore_metadata_events path (newpath_of (decompress_newpath opts path))
                     else [])))
        \<and> fr_out (decompress_file h d env opts path) \<noteq> None)"
proof (intro impI conjI)
  assume a: "16 \<le> length (in_bytes (fe_input env))
    \<and> unat (header_size (input_file_header env)) < 16"
  then have len: "16 \<le> length (in_bytes (fe_input env))"
    and small: "unat (header_size (input_file_header env)) < 16" by blast+
  from small have rej: "fr_ret (decompress_file h d env opts path) \<noteq> 0
         \<and> fr_out (decompress_file h d env opts path) = None
         \<and> Xopen_for_write None \<notin> set (fr_log (decompress_file h d env opts path))"
    by (intro bad_header_no_output) blast
  show "fr_ret (decompress_file h d env opts path) \<noteq> 0" using rej by blast
  show "fr_out (decompress_file h d env opts path) = None" using rej by blast
  assume b: "reads_header env opts path
           \<and> magic (input_file_header env) = XPACK_MAGIC
           \<and> version (input_file_header env) = 1"
  then have rh: "reads_header env opts path"
    and m: "magic (disk_file_header (take 16 (in_bytes (fe_input env)))) = XPACK_MAGIC"
    and v: "version (disk_file_header (take 16 (in_bytes (fe_input env)))) = 1"
    by (simp_all add: input_file_header_def)
  from small have s: "unat (header_size (disk_file_header (take 16 (in_bytes (fe_input env))))) < 16"
    by (simp add: input_file_header_def)
  note df = decompress_file_reads_header [OF rh]
  note hb = header_bad_size [OF len m v s, of h d opts path _ "[]"]
  show "fr_ret (decompress_file h d env opts path) = -1" by (simp add: df hb)
  show "fr_log (decompress_file h d env opts path) =
             [Msg (Incorrect_header_size (header_size (input_file_header env))), Xclose_in]"
    by (simp add: df hb input_file_header_def)
next
  assume b: "reads_header env opts path \<and> 16 \<le> length (in_bytes (fe_input env))
       \<and> magic (input_file_header env) = XPACK_MAGIC \<and> version (input_file_header env) = 1
       \<and> 16 \<le> unat (header_size (input_file_header env))
       \<and> unat (header_size (input_file_header env)) \<le> length (in_bytes (fe_input env))
       \<and> valid_chunk_size (chunk_size (input_file_header env))
       \<and> fe_open_write env = 0"
  then have rh: "reads_header env opts path" and len: "16 \<le> length (in_bytes (fe_input env))"
    and m: "magic (disk_file_header (take 16 (in_bytes (fe_input env)))) = XPACK_MAGIC"
    and v: "version (disk_file_header (take 16 (in_bytes (fe_input env)))) = 1"
    and hs: "16 \<le> unat (header_size (disk_file_header (take 16 (in_bytes (fe_input env)))))"
    and extra: "unat (header_size (disk_file_header (take 16 (in_bytes (fe_input env)))))
                    \<le> length (in_bytes (fe_input env))"
    and cs: "1024 \<le> chunk_size (disk_file_header (take 16 (in_bytes (fe_input env))))"
            "chunk_size (disk_file_header (take 16 (in_bytes (fe_input env)))) \<le> 67108864"
    and ow: "fe_open_write env = 0"
    by (simp_all add: input_file_header_def valid_chunk_size_def)
  note df = decompress_file_reads_header [OF rh]
  show eq: "decompress_file h d env opts path =
          (case do_decompress h d (fe_mem_ok env)
                  ((fe_input env)\<lparr>in_bytes :=
                      drop (unat (header_size (input_file_header env))) (in_bytes (fe_input env))\<rparr>)
                  (fe_output env) (chunk_size (input_file_header env)) of
             (ret, out, msgs) \<Rightarrow>
               out_close_out env opts path (newpath_of (decompress_newpath opts path)) ret out
                 ([Xopen_for_write (newpath_of (decompress_newpath opts path))] @ msgs @
                    (if ret = 0
                     then restore_metadata_events path (newpath_of (decompress_newpath opts path))
                     else [])))"
    using header_accepted [OF len m v hs cs extra ow, of h d opts path _ "[]"]
    by (simp add: df input_file_header_def)
  show "fr_out (decompress_file h d env opts path) \<noteq> None"
    unfolding eq by (simp add: out_close_out_result split: prod.splits)
qed

theorem header_size_check_witness:
  "(reads_header (plain_env (XPACK_MAGIC @ [0, 0, 8, 0, 12, 0, 1, 6]))
       (default_options ''xunpack'') (Some ''a.xpack'')
    \<and> 16 \<le> length (in_bytes (fe_input (plain_env (XPACK_MAGIC @ [0, 0, 8, 0, 12, 0, 1, 6]))))
    \<and> magic (input_file_header (plain_env (XPACK_MAGIC @ [0, 0, 8, 0, 12, 0, 1, 6]))) = XPACK_MAGIC
    \<and> version (input_file_header (plain_env (XPACK_MAGIC @ [0, 0, 8, 0, 12, 0, 1, 6]))) = 1
    \<and> unat (header_size (input_file_header (plain_env (XPACK_MAGIC @ [0, 0, 8, 0, 12, 0, 1, 6]))))
         < 16)
   \<and> fr_log (decompress_file Little_endian refusing_decompressor
               (plain_env (XPACK_MAGIC @ [0, 0, 8, 0, 12, 0, 1, 6]))
               (default_options ''xunpack'') (Some ''a.xpack''))
       = [Msg (Incorrect_header_size 12), Xclose_in]
   \<and> (reads_header (plain_env (XPACK_MAGIC @ [0, 0, 8, 0, 18, 0, 1, 6, 0xAA, 0xBB]))
         (default_options ''xunpack'') (Some ''a.xpack'')
       \<and> 16 \<le> unat (header_size
                (input_file_header (plain_env (XPACK_MAGIC @ [0, 0, 8, 0, 18, 0, 1, 6, 0xAA, 0xBB]))))
       \<and> valid_chunk_size (chunk_size
                (input_file_header (plain_env (XPACK_MAGIC @ [0, 0, 8, 0, 18, 0, 1, 6, 0xAA, 0xBB])))))
   \<and> decompress_file Little_endian refusing_decompressor
         (plain_env (XPACK_MAGIC @ [0, 0, 8, 0, 18, 0, 1, 6, 0xAA, 0xBB]))
         (default_options ''xunpack'') (Some ''a.xpack'')
       = \<lparr> fr_ret = 0, fr_out = Some \<lparr>out_bytes = [], out_limit = None\<rparr>,
           fr_log = [Xopen_for_write (Some ''a''), Restore_metadata ''a'', Xclose_out, Xclose_in,
                     Tunlink ''a.xpack''] \<rparr>"
proof -
  let ?e1 = "plain_env (XPACK_MAGIC @ [0, 0, 8, 0, 12, 0, 1, 6])"
  let ?e2 = "plain_env (XPACK_MAGIC @ [0, 0, 8, 0, 18, 0, 1, 6, 0xAA, 0xBB])"
  let ?o = "default_options ''xunpack''"
  let ?p = "Some ''a.xpack''"
  have h1: "input_file_header ?e1 =
      \<lparr>magic = XPACK_MAGIC, chunk_size = 524288, header_size = 12, version = 1,
       compression_level = 6\<rparr>"
    by (simp add: input_file_header_def disk_file_header_def plain_env_def XPACK_MAGIC_def)
  have h2: "input_file_header ?e2 =
      \<lparr>magic = XPACK_MAGIC, chunk_size = 524288, header_size = 18, version = 1,
       compression_level = 6\<rparr>"
    by (simp add: input_file_header_def disk_file_header_def plain_env_def XPACK_MAGIC_def)
  have a1: "reads_header ?e1 ?o ?p \<and> 16 \<le> length (in_bytes (fe_input ?e1))
    \<and> magic (input_file_header ?e1) = XPACK_MAGIC \<and> version (input_file_header ?e1) = 1"
    using plain_reads_header by (simp add: h1) (simp add: plain_env_def XPACK_MAGIC_def)
  have b1: "unat (header_size (input_file_header ?e1)) < 16"
    by (simp add: h1)
  have a2: "reads_header ?e2 ?o ?p \<and> 16 \<le> length (in_bytes (fe_input ?e2))
    \<and> magic (input_file_header ?e2) = XPACK_MAGIC \<and> version (input_file_header ?e2) = 1"
    using plain_reads_header by (simp add: h2) (simp add: plain_env_def XPACK_MAGIC_def)
  have b2: "16 \<le> unat (header_size (input_file_header ?e2))
       \<and> unat (header_size (input_file_header ?e2)) \<le> length (in_bytes (fe_input ?e2))
       \<and> valid_chunk_size (chunk_size (input_file_header ?e2))
       \<and> fe_open_write ?e2 = 0"
    by (simp add: h2 valid_chunk_size_def) (simp add: plain_env_def XPACK_MAGIC_def)
  from header_size_check [where env = ?e1 and opts = ?o and path = ?p and h = Little_endian
        and d = refusing_decompressor] a1 b1
  have r1: "fr_log (decompress_file Little_endian refusing_decompressor ?e1 ?o ?p)
       = [Msg (Incorrect_header_size (header_size (input_file_header ?e1))), Xclose_in]"
    by blast
  from header_size_check [where env = ?e2 and opts = ?o and path = ?p and h = Little_endian
        and d = refusing_decompressor] a2 b2
  have "decompress_file Little_endian refusing_decompressor ?e2 ?o ?p =
          (case do_decompress Little_endian refusing_decompressor (fe_mem_ok ?e2)
                  ((fe_input ?e2)\<lparr>in_bytes :=
                      drop (unat (header_size (input_file_header ?e2))) (in_bytes (fe_input ?e2))\<rparr>)
                  (fe_output ?e2) (chunk_size (input_file_header ?e2)) of
             (ret, out, msgs) \<Rightarrow>
               out_close_out ?e2 ?o ?p (newpath_of (decompress_newpath ?o ?p)) ret out
                 ([Xopen_for_write (newpath_of (decompress_newpath ?o ?p))] @ msgs @
                    (if ret = 0
                     then restore_metadata_events ?p (newpath_of (decompress_newpath ?o ?p))
                     else [])))"
    by blast
  also have "\<dots> = \<lparr> fr_ret = 0, fr_out = Some \<lparr>out_bytes = [], out_limit = None\<rparr>,
           fr_log = [Xopen_for_write (Some ''a''), Restore_metadata ''a'', Xclose_out, Xclose_in,
                     Tunlink ''a.xpack''] \<rparr>"
    unfolding h2
    by (simp add: plain_env_def XPACK_MAGIC_def do_decompress_def decompress_loop.simps
          xread_def sizeof_chunk_header_def out_close_out_def out_close_in_def
          restore_metadata_events_def newpath_of_def decompress_newpath_def default_options_def
          get_suffix_def get_filename_def)
  finally have r2: "decompress_file Little_endian refusing_decompressor ?e2 ?o ?p
       = \<lparr> fr_ret = 0, fr_out = Some \<lparr>out_bytes = [], out_limit = None\<rparr>,
           fr_log = [Xopen_for_write (Some ''a''), Restore_metadata ''a'', Xclose_out, Xclose_in,
                     Tunlink ''a.xpack''] \<rparr>" .
  have hs1: "header_size (input_file_header ?e1) = 12" by (simp add: h1)
  show ?thesis
    using a1 b1 r1 a2 b2 r2 unfolding hs1 by blast
qed

text \<open>
  The claim as first written promises "incorrect header size" for every header with
  \<open>header_size < 16\<close> and acceptance of every header with \<open>header_size \<ge> 16\<close>. A header
  with \<open>header_size = 12\<close> and version 2 is diagnosed "unsupported version"; a header with
  \<open>header_size = 16\<close> and \<open>chunk_size = 512\<close> is rejected with "unsupported chunk size".
\<close>

theorem header_size_check_counterexample:
  "unat (header_size (input_file_header
      (plain_env [0x58, 0x50, 0x41, 0x43, 0x4B, 0, 0, 0, 0, 0, 8, 0, 12, 0, 2, 6]))) = 12
   \<and> decompress_file Little_endian refusing_decompressor
        (plain_env [0x58, 0x50, 0x41, 0x43, 0x4B, 0, 0, 0, 0, 0, 8, 0, 12, 0, 2, 6])
        (default_options ''xunpack'') (Some ''a.xpack'')
       = \<lparr> fr_ret = -1, fr_out = None, fr_log = [Msg (Unsupported_version 2), Xclose_in] \<rparr>
   \<and> Msg (Incorrect_header_size 12) \<notin> set (fr_log
        (decompress_file Little_endian refusing_decompressor
          (plain_env [0x58, 0x50, 0x41, 0x43, 0x4B, 0, 0, 0, 0, 0, 8, 0, 12, 0, 2, 6])
          (default_options ''xunpack'') (Some ''a.xpack'')))
   \<and> unat (header_size (input_file_header
        (plain_env [0x58, 0x50, 0x41, 0x43, 0x4B, 0, 0, 0, 0, 2, 0, 0, 16, 0, 1, 6]))) = 16
   \<and> decompress_file Little_endian refusing_decompressor
        (plain_env [0x58, 0x50, 0x41, 0x43, 0x4B, 0, 0, 0, 0, 2, 0, 0, 16, 0, 1, 6])
        (default_options ''xunpack'') (Some ''a.xpack'')
       = \<lparr> fr_ret = -1, fr_out = None, fr_log = [Msg (Unsupported_chunk_size 512), Xclose_in] \<rparr>"
proof -
  have run1: "decompress_file Little_endian refusing_decompressor
        (plain_env [0x58, 0x50, 0x41, 0x43, 0x4B, 0, 0, 0, 0, 0, 8, 0, 12, 0, 2, 6])
        (default_options ''xunpack'') (Some ''a.xpack'')
       = \<lparr> fr_ret = -1, fr_out = None, fr_log = [Msg (Unsupported_version 2), Xclose_in] \<rparr>"
    by (simp add: run_defs)
  have run2: "decompress_file Little_endian refusing_decompressor
        (plain_env [0x58, 0x50, 0x41, 0x43, 0x4B, 0, 0, 0, 0, 2, 0, 0, 16, 0, 1, 6])
        (default_options ''xunpack'') (Some ''a.xpack'')
       = \<lparr> fr_ret = -1, fr_out = None, fr_log = [Msg (Unsupported_chunk_size 512), Xclose_in] \<rparr>"
    by (simp add: run_defs)
  have h1: "unat (header_size (input_file_header
      (plain_env [0x58, 0x50, 0x41, 0x43, 0x4B, 0, 0, 0, 0, 0, 8, 0, 12, 0, 2, 6]))) = 12"
    by (simp add: input_file_header_def disk_file_header_def plain_env_def)
  have h2: "unat (header_size (input_file_header
        (plain_env [0x58, 0x50, 0x41, 0x43, 0x4B, 0, 0, 0, 0, 2, 0, 0, 16, 0, 1, 6]))) = 16"
    by (simp add: input_file_header_def disk_file_header_def plain_env_def)
  show ?thesis unfolding run1 run2 using h1 h2 by simp
qed

section \<open>The empty file\<close>

lemma env_ok_stat: "env_ok env \<Longrightarrow> stat_file env s a = (0, [])"
  by (auto simp: env_ok_def stat_file_def)

lemma compress_loop_empty:
  "compress_loop h c cs \<lparr>in_bytes = [], in_end = End_of_file\<rparr> out = (0, out)"
  by (subst compress_loop.simps) (simp add: xread_def)

lemma decompress_loop_empty:
  "decompress_loop h d cs (inp\<lparr>in_bytes := []\<rparr>) out log
     = (if in_end inp = End_of_file then (0, out, log) else (-1, out, log))"
  by (subst decompress_loop.simps)
     (simp add: xread_def sizeof_chunk_header_def split: read_end.splits)

lemma length_magic [simp]: "length XPACK_MAGIC = 8"
  by (simp add: XPACK_MAGIC_def)

lemma disk_file_header_image:
  "disk_file_header (XPACK_MAGIC @ le32 cs @ le16 hs @ [v] @ [lvl])
     = \<lparr> magic = XPACK_MAGIC, chunk_size = cs, header_size = hs, version = v,
         compression_level = lvl \<rparr>"
  by (simp add: disk_file_header_def from_le32_le32 from_le16_le16 nth_append)

lemma compress_empty:
  assumes ok: "env_ok env"
      and inp: "fe_input env = \<lparr>in_bytes = [], in_end = End_of_file\<rparr>"
      and np: "compress_newpath opts path = Inr np"
  shows "fr_ret (compress_file h c env opts path) = 0"
    and "fr_out (compress_file h c env opts path) =
           Some \<lparr>out_bytes = XPACK_MAGIC @ le32 (opt_chunk_size opts) @ le16 16 @ [1]
                              @ [of_int (opt_compression_level opts)],
                 out_limit = None\<rparr>"
proof -
  from ok have f: "fe_open_read env = 0" "fe_open_write env = 0" "\<not> fe_out_isatty env"
    "fe_mem_ok env" "fe_output env = \<lparr>out_bytes = [], out_limit = None\<rparr>"
    "fe_close_out env = 0"
    by (simp_all add: env_ok_def)
  have wh: "write_file_header h \<lparr>out_bytes = [], out_limit = None\<rparr> (opt_chunk_size opts)
              (opt_compression_level opts)
            = (0, \<lparr>out_bytes = XPACK_MAGIC @ le32 (opt_chunk_size opts) @ le16 16 @ [1]
                              @ [of_int (opt_compression_level opts)],
                 out_limit = None\<rparr>)"
    by (simp add: write_file_header_def bswap_file_header_def file_header_bytes_def
          sizeof_file_header_def full_write_def XPACK_MAGIC_def)
  have r: "compress_file h c env opts path =
      out_close_out env opts path np 0
        \<lparr>out_bytes = XPACK_MAGIC @ le32 (opt_chunk_size opts) @ le16 16 @ [1]
                              @ [of_int (opt_compression_level opts)],
                 out_limit = None\<rparr>
        ([Xopen_for_write np] @ restore_metadata_events path np)"
    by (simp add: compress_file_def np env_ok_stat [OF ok] f inp wh do_compress_def
          compress_loop_empty)
  show "fr_ret (compress_file h c env opts path) = 0"
    by (simp add: r out_close_out_result f)
  show "fr_out (compress_file h c env opts path) =
           Some \<lparr>out_bytes = XPACK_MAGIC @ le32 (opt_chunk_size opts) @ le16 16 @ [1]
                              @ [of_int (opt_compression_level opts)],
                 out_limit = None\<rparr>"
    by (simp add: r out_close_out_result)
qed

lemma env_ok_reads_header:
  "env_ok env \<Longrightarrow> decompress_newpath opts path = Inr np \<Longrightarrow> reads_header env opts path"
  by (simp add: reads_header_def env_ok_stat) (simp add: env_ok_def)

lemma decompress_header_only:
  assumes ok: "env_ok env"
      and inp: "fe_input env =
                  \<lparr>in_bytes = XPACK_MAGIC @ le32 cs @ le16 16 @ [1] @ [lvl], in_end = End_of_file\<rparr>"
      and cs: "valid_chunk_size cs"
      and np: "decompress_newpath opts path = Inr np"
  shows "fr_ret (decompress_file h d env opts path) = 0"
    and "fr_out (decompress_file h d env opts path) = Some \<lparr>out_bytes = [], out_limit = None\<rparr>"
proof -
  from ok have f: "fe_open_read env = 0" "fe_open_write env = 0" "\<not> fe_out_isatty env"
    "fe_mem_ok env" "fe_output env = \<lparr>out_bytes = [], out_limit = None\<rparr>"
    "fe_close_out env = 0"
    by (simp_all add: env_ok_def)
  let ?bs = "XPACK_MAGIC @ le32 cs @ le16 16 @ [1] @ [lvl]"
  have l: "length ?bs = 16" by simp
  have t: "take 16 (in_bytes (fe_input env)) = ?bs" by (simp add: inp)
  have hdr: "disk_file_header (take 16 (in_bytes (fe_input env)))
     = \<lparr> magic = XPACK_MAGIC, chunk_size = cs, header_size = 16, version = 1,
         compression_level = lvl \<rparr>"
    unfolding t by (rule disk_file_header_image)
  have rh: "reads_header env opts path" by (rule env_ok_reads_header [OF ok np])
  have acc: "decompress_from_header h d env opts path np [] =
           (case do_decompress h d (fe_mem_ok env)
                   ((fe_input env)\<lparr>in_bytes :=
                      drop (unat (header_size (disk_file_header (take 16 (in_bytes (fe_input env))))))
                        (in_bytes (fe_input env))\<rparr>)
                   (fe_output env)
                   (chunk_size (disk_file_header (take 16 (in_bytes (fe_input env))))) of
              (ret, out, msgs) \<Rightarrow>
                out_close_out env opts path np ret out
                  ([] @ [Xopen_for_write np] @ msgs @
                     (if ret = 0 then restore_metadata_events path np else [])))"
    using cs by (intro header_accepted; simp add: hdr f valid_chunk_size_def; simp add: inp)
  have dd: "do_decompress h d True ((fe_input env)\<lparr>in_bytes := drop 16 (in_bytes (fe_input env))\<rparr>)
              \<lparr>out_bytes = [], out_limit = None\<rparr> cs
            = (0, \<lparr>out_bytes = [], out_limit = None\<rparr>, [])"
    using decompress_loop_empty [of h d cs "fe_input env"]
    by (simp add: do_decompress_def inp)
  have r: "decompress_file h d env opts path =
      out_close_out env opts path np 0 \<lparr>out_bytes = [], out_limit = None\<rparr>
        ([Xopen_for_write np] @ restore_metadata_events path np)"
    unfolding decompress_file_reads_header [OF rh] np newpath_of_def
    by (simp add: acc hdr f dd)
  show "fr_ret (decompress_file h d env opts path) = 0"
    by (simp add: r out_close_out_result f)
  show "fr_out (decompress_file h d env opts path) = Some \<lparr>out_bytes = [], out_limit = None\<rparr>"
    by (simp add: r out_close_out_result)
qed

lemma plain_env_ok: "env_ok (plain_env bs)"
  by (simp add: env_ok_def plain_env_def)


text \<open>
  Claim C8. When the environment raises no obstacle, compressing an empty input file
  succeeds and leaves an output of exactly the 16 bytes of the file header and no chunk.
  \<open>do_decompress\<close> on a stream without chunks returns 0 and writes nothing. So when the
  chunk size of the compressing run is a supported one, decompressing that container, on
  a host of either byte order, succeeds with an empty output: an empty file survives
  \<open>xpack\<close> followed by \<open>xunpack\<close>.
\<close>

theorem empty_file_round_trip:
  "(env_ok env \<and> fe_input env = \<lparr>in_bytes = [], in_end = End_of_file\<rparr>
    \<and> compress_newpath opts path = Inr np \<longrightarrow>
      fr_ret (compress_file h c env opts path) = 0
      \<and> fr_out (compress_file h c env opts path) =
           Some \<lparr>out_bytes = XPACK_MAGIC @ le32 (opt_chunk_size opts) @ le16 16 @ [1]
                              @ [of_int (opt_compression_level opts)],
                 out_limit = None\<rparr>
      \<and> length (XPACK_MAGIC @ le32 (opt_chunk_size opts) @ le16 16 @ [1]
                   @ [of_int (opt_compression_level opts) :: u8]) = 16
      \<and> (env_ok env'
          \<and> fe_input env' =
               \<lparr>in_bytes = out_bytes (the (fr_out (compress_file h c env opts path))),
                in_end = End_of_file\<rparr>
          \<and> valid_chunk_size (opt_chunk_size opts)
          \<and> decompress_newpath opts' path' = Inr np' \<longrightarrow>
            fr_ret (decompress_file h' d env' opts' path') = 0
            \<and> fr_out (decompress_file h' d env' opts' path') =
                 Some \<lparr>out_bytes = [], out_limit = None\<rparr>))
   \<and> do_decompress h' d True \<lparr>in_bytes = [], in_end = End_of_file\<rparr> out chunk_sz = (0, out, [])"
proof (intro conjI impI)
  show "do_decompress h' d True \<lparr>in_bytes = [], in_end = End_of_file\<rparr> out chunk_sz = (0, out, [])"
    using decompress_loop_empty [of h' d chunk_sz "\<lparr>in_bytes = [], in_end = End_of_file\<rparr>" out "[]"]
    by (simp add: do_decompress_def)
next
  assume a: "env_ok env \<and> fe_input env = \<lparr>in_bytes = [], in_end = End_of_file\<rparr>
    \<and> compress_newpath opts path = Inr np"
  then have ok: "env_ok env" and inp: "fe_input env = \<lparr>in_bytes = [], in_end = End_of_file\<rparr>"
    and np: "compress_newpath opts path = Inr np" by simp_all
  show ret: "fr_ret (compress_file h c env opts path) = 0"
    by (rule compress_empty(1) [OF ok inp np])
  show out: "fr_out (compress_file h c env opts path) =
           Some \<lparr>out_bytes = XPACK_MAGIC @ le32 (opt_chunk_size opts) @ le16 16 @ [1]
                              @ [of_int (opt_compression_level opts)],
                 out_limit = None\<rparr>"
    by (rule compress_empty(2) [OF ok inp np])
  show "length (XPACK_MAGIC @ le32 (opt_chunk_size opts) @ le16 16 @ [1]
                   @ [of_int (opt_compression_level opts) :: u8]) = 16"
    by simp
  assume b: "env_ok env'
          \<and> fe_input env' =
               \<lparr>in_bytes = out_bytes (the (fr_out (compress_file h c env opts path))),
                in_end = End_of_file\<rparr>
          \<and> valid_chunk_size (opt_chunk_size opts)
          \<and> decompress_newpath opts' path' = Inr np'"
  then have ok': "env_ok env'"
    and inp': "fe_input env' =
                  \<lparr>in_bytes = XPACK_MAGIC @ le32 (opt_chunk_size opts) @ le16 16 @ [1]
                       @ [of_int (opt_compression_level opts)], in_end = End_of_file\<rparr>"
    and cs: "valid_chunk_size (opt_chunk_size opts)"
    and np': "decompress_newpath opts' path' = Inr np'"
    by (simp_all add: out)
  show "fr_ret (decompress_file h' d env' opts' path') = 0"
    by (rule decompress_header_only(1) [OF ok' inp' cs np'])
  show "fr_out (decompress_file h' d env' opts' path') = Some \<lparr>out_bytes = [], out_limit = None\<rparr>"
    by (rule decompress_header_only(2) [OF ok' inp' cs np'])
qed


theorem empty_file_round_trip_witness:
  "(env_ok (plain_env [])
    \<and> fe_input (plain_env []) = \<lparr>in_bytes = [], in_end = End_of_file\<rparr>
    \<and> compress_newpath (default_options ''xpack'') (Some ''a'') = Inr (Some ''a.xpack''))
   \<and> fr_ret (compress_file Little_endian toy_compressor (plain_env [])
               (default_options ''xpack'') (Some ''a'')) = 0
   \<and> fr_out (compress_file Little_endian toy_compressor (plain_env [])
               (default_options ''xpack'') (Some ''a''))
       = Some \<lparr>out_bytes = [0x58, 0x50, 0x41, 0x43, 0x4B, 0, 0, 0, 0, 0, 8, 0, 16, 0, 1, 6],
               out_limit = None\<rparr>
   \<and> (env_ok (plain_env [0x58, 0x50, 0x41, 0x43, 0x4B, 0, 0, 0, 0, 0, 8, 0, 16, 0, 1, 6])
       \<and> valid_chunk_size (opt_chunk_size (default_options ''xpack''))
       \<and> decompress_newpath (default_options ''xunpack'') (Some ''a.xpack'') = Inr (Some ''a''))
   \<and> fr_ret (decompress_file Big_endian refusing_decompressor
               (plain_env [0x58, 0x50, 0x41, 0x43, 0x4B, 0, 0, 0, 0, 0, 8, 0, 16, 0, 1, 6])
               (default_options ''xunpack'') (Some ''a.xpack'')) = 0
   \<and> fr_out (decompress_file Big_endian refusing_decompressor
               (plain_env [0x58, 0x50, 0x41, 0x43, 0x4B, 0, 0, 0, 0, 0, 8, 0, 16, 0, 1, 6])
               (default_options ''xunpack'') (Some ''a.xpack''))
       = Some \<lparr>out_bytes = [], out_limit = None\<rparr>"
proof -
  let ?C = "compress_file Little_endian toy_compressor (plain_env [])
               (default_options ''xpack'') (Some ''a'')"
  let ?img = "[0x58, 0x50, 0x41, 0x43, 0x4B, 0, 0, 0, 0, 0, 8, 0, 16, 0, 1, 6] :: u8 list"
  have a: "env_ok (plain_env [])
    \<and> fe_input (plain_env []) = \<lparr>in_bytes = [], in_end = End_of_file\<rparr>
    \<and> compress_newpath (default_options ''xpack'') (Some ''a'') = Inr (Some ''a.xpack'')"
    by (simp add: plain_env_ok)
       (simp add: plain_env_def compress_newpath_def default_options_def is_xunpack_def
          has_suffix_def get_suffix_def get_filename_def)
  note inst = empty_file_round_trip [where env = "plain_env []" and opts = "default_options ''xpack''"
      and path = "Some ''a''" and np = "Some ''a.xpack''" and h = Little_endian
      and c = toy_compressor and env' = "plain_env ?img" and opts' = "default_options ''xunpack''"
      and path' = "Some ''a.xpack''" and np' = "Some ''a''" and h' = Big_endian
      and d = refusing_decompressor]
  from inst a have r: "fr_ret ?C = 0"
    and o: "fr_out ?C = Some \<lparr>out_bytes = XPACK_MAGIC @ le32 (opt_chunk_size (default_options ''xpack''))
                 @ le16 16 @ [1] @ [of_int (opt_compression_level (default_options ''xpack''))],
                 out_limit = None\<rparr>"
    by blast+
  have img: "XPACK_MAGIC @ le32 (opt_chunk_size (default_options ''xpack''))
                 @ le16 16 @ [1] @ [of_int (opt_compression_level (default_options ''xpack''))]
             = ?img"
    by (simp add: XPACK_MAGIC_def default_options_def le32_def le16_def)
  have o': "fr_out ?C = Some \<lparr>out_bytes = ?img, out_limit = None\<rparr>"
    using o unfolding img .
  have b: "env_ok (plain_env ?img)
          \<and> fe_input (plain_env ?img) =
               \<lparr>in_bytes = out_bytes (the (fr_out ?C)), in_end = End_of_file\<rparr>
          \<and> valid_chunk_size (opt_chunk_size (default_options ''xpack''))
          \<and> decompress_newpath (default_options ''xunpack'') (Some ''a.xpack'') = Inr (Some ''a'')"
    by (simp add: plain_env_ok o')
       (simp add: plain_env_def valid_chunk_size_def default_options_def decompress_newpath_def
          get_suffix_def get_filename_def)
  from inst a b have d: "fr_ret (decompress_file Big_endian refusing_decompressor
               (plain_env ?img) (default_options ''xunpack'') (Some ''a.xpack'')) = 0
     \<and> fr_out (decompress_file Big_endian refusing_decompressor
               (plain_env ?img) (default_options ''xunpack'') (Some ''a.xpack''))
       = Some \<lparr>out_bytes = [], out_limit = None\<rparr>"
    by blast
  show ?thesis using a r o' b d by blast
qed

section \<open>Cleanup after a failure\<close>

lemma tstrrchr_less: "tstrrchr s c = Some i \<Longrightarrow> i < length s"
  by (induction s arbitrary: i) (auto split: option.splits if_splits)

lemma get_suffix_less: "get_suffix p sfx = Some n \<Longrightarrow> n < length p"
proof -
  assume a: "get_suffix p sfx = Some n"
  then obtain d where d: "tstrrchr (drop (get_filename p) p) (CHR ''.'') = Some d"
    and n: "n = get_filename p + d"
    by (auto simp: get_suffix_def Let_def split: option.splits if_splits)
  from tstrrchr_less [OF d] show ?thesis using n by simp
qed

lemma decompress_newpath_differs:
  "decompress_newpath opts (Some p) = Inr (Some np) \<Longrightarrow> np \<noteq> p"
proof -
  assume "decompress_newpath opts (Some p) = Inr (Some np)"
  then obtain n where "get_suffix p (opt_suffix opts) = Some n" and np: "np = take n p"
    by (auto simp: decompress_newpath_def split: if_splits option.splits)
  from get_suffix_less [OF this(1)] have "length np < length p" using np by simp
  then show ?thesis by auto
qed

lemma compress_newpath_differs:
  "compress_newpath opts (Some p) = Inr (Some np) \<Longrightarrow> np \<noteq> p"
  by (auto simp: compress_newpath_def split: if_splits)

lemma newpath_named:
  "compress_newpath opts path = Inr (Some np) \<Longrightarrow> path \<noteq> None \<and> \<not> opt_to_stdout opts"
  "decompress_newpath opts path = Inr (Some np) \<Longrightarrow> path \<noteq> None \<and> \<not> opt_to_stdout opts"
  by (auto simp: compress_newpath_def decompress_newpath_def split: if_splits option.splits)

lemma stat_file_no_unlink: "Tunlink x \<notin> set (snd (stat_file env s a))"
  by (simp add: stat_file_def)

lemma out_close_in_log:
  "fr_ret (out_close_in opts path np ret out log) = ret"
  "fr_out (out_close_in opts path np ret out log) = out"
  "Tunlink x \<in> set (fr_log (out_close_in opts path np ret out log)) \<longleftrightarrow>
     Tunlink x \<in> set log \<or> (path = Some x \<and> np \<noteq> None \<and> ret = 0 \<and> \<not> opt_keep opts)"
  by (auto simp: out_close_in_def split: option.splits)

lemma out_close_out_log:
  "fr_ret (out_close_out env opts path np ret out log) = (if ret = 0 then fe_close_out env else ret)"
  "fr_out (out_close_out env opts path np ret out log) = Some out"
  "Tunlink x \<in> set (fr_log (out_close_out env opts path np ret out log)) \<longleftrightarrow>
     Tunlink x \<in> set log
     \<or> (np = Some x \<and> (if ret = 0 then fe_close_out env else ret) \<noteq> 0)
     \<or> (path = Some x \<and> np \<noteq> None \<and> (if ret = 0 then fe_close_out env else ret) = 0
          \<and> \<not> opt_keep opts)"
  by (auto simp: out_close_out_def out_close_in_def Let_def split: option.splits)

lemma restore_metadata_no_unlink: "Tunlink x \<notin> set (restore_metadata_events path np)"
  by (simp add: restore_metadata_events_def split: option.splits)

lemma compress_file_unlinks:
  assumes np: "compress_newpath opts path = Inr np"
  shows "Tunlink x \<in> set (fr_log (compress_file h c env opts path)) \<longleftrightarrow>
          (fr_out (compress_file h c env opts path) \<noteq> None \<and> np = Some x
             \<and> fr_ret (compress_file h c env opts path) \<noteq> 0)
          \<or> (path = Some x \<and> np \<noteq> None \<and> fr_ret (compress_file h c env opts path) = 0
               \<and> \<not> opt_keep opts)"
proof -
  obtain r msgs where st: "stat_file env (path = None) (opt_force opts \<or> np = None) = (r, msgs)"
    by (cases "stat_file env (path = None) (opt_force opts \<or> np = None)")
  have m: "Tunlink x \<notin> set msgs"
    using stat_file_no_unlink [of x env "path = None" "opt_force opts \<or> np = None"] st by simp
  show ?thesis
    using m
    by (simp add: compress_file_def np st Let_def out_close_in_log out_close_out_log
          restore_metadata_no_unlink split: prod.splits)
qed


lemma decompress_chunk_no_unlink:
  "decompress_chunk h d cs hb inp out = (ret, inp', out', msgs) \<Longrightarrow> Tunlink x \<notin> set msgs"
  by (auto simp: decompress_chunk_def Let_def split: if_splits prod.splits option.splits)

lemma decompress_loop_no_unlink:
  "decompress_loop h d cs inp out log = (ret, out', log') \<Longrightarrow>
     Tunlink x \<in> set log' \<longleftrightarrow> Tunlink x \<in> set log"
proof (induction h d cs inp out log rule: decompress_loop.induct)
  case (1 h d cs inp out log)
  obtain r inp1 where xr: "xread inp sizeof_chunk_header = (r, inp1)"
    by (cases "xread inp sizeof_chunk_header")
  show ?case
  proof (cases r)
    case None
    with "1.prems" xr show ?thesis by (simp add: decompress_loop.simps [of h d cs inp])
  next
    case (Some hb)
    note xs = xr [unfolded Some]
    show ?thesis
    proof (cases "length hb = sizeof_chunk_header")
      case False
      with "1.prems" xs show ?thesis
        by (auto simp: decompress_loop.simps [of h d cs inp] split: if_splits)
    next
      case True
      obtain r2 inp2 out2 msgs where dc: "decompress_chunk h d cs hb inp1 out = (r2, inp2, out2, msgs)"
        by (cases "decompress_chunk h d cs hb inp1 out")
      note nm = decompress_chunk_no_unlink [OF dc, of x]
      show ?thesis
      proof (cases "r2 = 0")
        case False
        with "1.prems" xs True dc nm show ?thesis
          by (auto simp: decompress_loop.simps [of h d cs inp])
      next
        case r0: True
        with "1.prems" xs True dc
        have rec: "decompress_loop h d cs inp2 out2 (log @ msgs) = (ret, out', log')"
          by (simp add: decompress_loop.simps [of h d cs inp])
        have neq: "\<not> length hb \<noteq> sizeof_chunk_header" using True by simp
        have nr: "\<not> r2 \<noteq> 0" using r0 by simp
        from "1.IH" [OF xs [symmetric] refl neq dc [symmetric] refl refl nr rec]
        show ?thesis using nm by simp
      qed
    qed
  qed
qed

lemma do_decompress_no_unlink:
  "do_decompress h d mem inp out cs = (ret, out', msgs) \<Longrightarrow> Tunlink x \<notin> set msgs"
  using decompress_loop_no_unlink [of h d cs inp out "[]" ret out' msgs x]
  by (auto simp: do_decompress_def split: if_splits)

lemma skip_bytes_cases: "\<exists>r inp'. skip_bytes inp n = (r, inp')"
  by (cases "skip_bytes inp n") simp

lemma decompress_from_header_unlinks:
  assumes log: "Tunlink x \<notin> set log"
  shows "Tunlink x \<in> set (fr_log (decompress_from_header h d env opts path np log)) \<longleftrightarrow>
          (fr_out (decompress_from_header h d env opts path np log) \<noteq> None \<and> np = Some x
             \<and> fr_ret (decompress_from_header h d env opts path np log) \<noteq> 0)
          \<or> (path = Some x \<and> np \<noteq> None
               \<and> fr_ret (decompress_from_header h d env opts path np log) = 0
               \<and> \<not> opt_keep opts)"
proof -
  obtain rb inp1 where xr: "xread (fe_input env) sizeof_file_header = (rb, inp1)"
    by (cases "xread (fe_input env) sizeof_file_header")
  show ?thesis
  proof (cases rb)
    case None
    with xr log show ?thesis
      by (simp add: decompress_from_header_def out_close_in_log)
  next
    case (Some hb)
    let ?hdr = "bswap_file_header h (file_header_of_bytes h hb)"
    obtain rs inp2 where sk: "skip_bytes inp1 (unat (header_size ?hdr) - sizeof_file_header) = (rs, inp2)"
      by (cases "skip_bytes inp1 (unat (header_size ?hdr) - sizeof_file_header)")
    obtain rd outd msgs where dd:
      "do_decompress h d (fe_mem_ok env) inp2 (fe_output env) (chunk_size ?hdr) = (rd, outd, msgs)"
      by (cases "do_decompress h d (fe_mem_ok env) inp2 (fe_output env) (chunk_size ?hdr)")
    note nm = do_decompress_no_unlink [OF dd, of x]
    show ?thesis
      using log nm
      by (simp add: decompress_from_header_def xr Some sk dd Let_def out_close_in_log
            out_close_out_log restore_metadata_no_unlink)
  qed
qed

lemma decompress_file_unlinks:
  assumes np: "decompress_newpath opts path = Inr np"
  shows "Tunlink x \<in> set (fr_log (decompress_file h d env opts path)) \<longleftrightarrow>
          (fr_out (decompress_file h d env opts path) \<noteq> None \<and> np = Some x
             \<and> fr_ret (decompress_file h d env opts path) \<noteq> 0)
          \<or> (path = Some x \<and> np \<noteq> None \<and> fr_ret (decompress_file h d env opts path) = 0
               \<and> \<not> opt_keep opts)"
proof -
  obtain r msgs where st: "stat_file env (path = None) (opt_force opts \<or> np = None) = (r, msgs)"
    by (cases "stat_file env (path = None) (opt_force opts \<or> np = None)")
  have m: "Tunlink x \<notin> set msgs"
    using stat_file_no_unlink [of x env "path = None" "opt_force opts \<or> np = None"] st by simp
  show ?thesis
    using decompress_from_header_unlinks [OF m, of h d env opts path np] m
    by (simp add: decompress_file_def np st out_close_in_log)
qed

lemma run1: "compress_file Little_endian toy_compressor
          ((plain_env [])\<lparr>fe_output := \<lparr>out_bytes = [], out_limit = Some 4\<rparr>\<rparr>)
          (default_options ''xpack'') (Some ''a'')
       = \<lparr> fr_ret = -1,
           fr_out = Some \<lparr>out_bytes = [0x58, 0x50, 0x41, 0x43], out_limit = Some 4\<rparr>,
           fr_log = [Xopen_for_write (Some ''a.xpack''), Xclose_out, Tunlink ''a.xpack'',
                     Xclose_in] \<rparr>"
  by (simp add: run_defs)

lemma run2: "compress_file Little_endian toy_compressor (plain_env [])
          (default_options ''xpack'') (Some ''a'')
       = \<lparr> fr_ret = 0,
           fr_out = Some \<lparr>out_bytes = [0x58, 0x50, 0x41, 0x43, 0x4B, 0, 0, 0, 0, 0, 8, 0, 16, 0, 1, 6],
                          out_limit = None\<rparr>,
           fr_log = [Xopen_for_write (Some ''a.xpack''), Restore_metadata ''a.xpack'', Xclose_out,
                     Xclose_in, Tunlink ''a''] \<rparr>"
  by (simp add: run_defs compress_loop.simps)

lemma run3: "decompress_file Little_endian refusing_decompressor
          (plain_env [0x58, 0x50, 0x41, 0x43, 0x4B, 0, 0, 0, 0, 0, 8, 0, 16, 0, 1, 6,
                      0, 0, 0, 0, 0, 0, 0, 0])
          (default_options ''xunpack'') (Some ''a.xpack'')
       = \<lparr> fr_ret = -1,
           fr_out = Some \<lparr>out_bytes = [], out_limit = None\<rparr>,
           fr_log = [Xopen_for_write (Some ''a''), Msg File_corrupt, Xclose_out, Tunlink ''a'',
                     Xclose_in] \<rparr>"
  by (simp add: run_defs decompress_loop.simps)

lemma run4: "decompress_file Little_endian refusing_decompressor
          (plain_env [0x58, 0x50, 0x41, 0x43, 0x4B, 0, 0, 0, 0, 0, 8, 0, 16, 0, 1, 6])
          (default_options ''xunpack'') (Some ''a.xpack'')
       = \<lparr> fr_ret = 0,
           fr_out = Some \<lparr>out_bytes = [], out_limit = None\<rparr>,
           fr_log = [Xopen_for_write (Some ''a''), Restore_metadata ''a'', Xclose_out,
                     Xclose_in, Tunlink ''a.xpack''] \<rparr>"
  by (simp add: run_defs decompress_loop.simps)



text \<open>
  Claim C10. Whenever \<open>compress_file\<close> or \<open>decompress_file\<close> returns a nonzero value
  after \<open>xopen_for_write\<close> has opened an output file with a name, that output file has
  been unlinked when the function returns. The input file is unlinked only if the
  function returns 0, a named output (not standard output) was used, and \<open>-k\<close> was not
  given.
\<close>

theorem cleanup_unlinks:
  "(compress_newpath opts path = Inr (Some np)
    \<and> fr_out (compress_file h c env opts path) \<noteq> None
    \<and> fr_ret (compress_file h c env opts path) \<noteq> 0 \<longrightarrow>
      Tunlink np \<in> set (fr_log (compress_file h c env opts path)))
   \<and> (path = Some p \<and> Tunlink p \<in> set (fr_log (compress_file h c env opts path)) \<longrightarrow>
        fr_ret (compress_file h c env opts path) = 0
        \<and> newpath_of (compress_newpath opts path) \<noteq> None
        \<and> \<not> opt_to_stdout opts \<and> \<not> opt_keep opts)
   \<and> (decompress_newpath opts path = Inr (Some np')
       \<and> fr_out (decompress_file h d env opts path) \<noteq> None
       \<and> fr_ret (decompress_file h d env opts path) \<noteq> 0 \<longrightarrow>
         Tunlink np' \<in> set (fr_log (decompress_file h d env opts path)))
   \<and> (path = Some p \<and> Tunlink p \<in> set (fr_log (decompress_file h d env opts path)) \<longrightarrow>
        fr_ret (decompress_file h d env opts path) = 0
        \<and> newpath_of (decompress_newpath opts path) \<noteq> None
        \<and> \<not> opt_to_stdout opts \<and> \<not> opt_keep opts)"
proof (intro conjI impI)
  assume a: "compress_newpath opts path = Inr (Some np)
    \<and> fr_out (compress_file h c env opts path) \<noteq> None
    \<and> fr_ret (compress_file h c env opts path) \<noteq> 0"
  then have np: "compress_newpath opts path = Inr (Some np)" by simp
  show "Tunlink np \<in> set (fr_log (compress_file h c env opts path))"
    using a by (simp add: compress_file_unlinks [OF np])
next
  assume a: "decompress_newpath opts path = Inr (Some np')
       \<and> fr_out (decompress_file h d env opts path) \<noteq> None
       \<and> fr_ret (decompress_file h d env opts path) \<noteq> 0"
  then have np: "decompress_newpath opts path = Inr (Some np')" by simp
  show "Tunlink np' \<in> set (fr_log (decompress_file h d env opts path))"
    using a by (simp add: decompress_file_unlinks [OF np])
next
  assume a: "path = Some p \<and> Tunlink p \<in> set (fr_log (compress_file h c env opts path))"
  then have p: "path = Some p" and u: "Tunlink p \<in> set (fr_log (compress_file h c env opts path))"
    by blast+
  have c: "fr_ret (compress_file h c env opts path) = 0
        \<and> newpath_of (compress_newpath opts path) \<noteq> None
        \<and> \<not> opt_to_stdout opts \<and> \<not> opt_keep opts"
  proof (cases "compress_newpath opts path")
    case (Inl r)
    with u show ?thesis by (simp add: compress_file_def)
  next
    case (Inr np)
    from u have "(fr_out (compress_file h c env opts path) \<noteq> None \<and> np = Some p
             \<and> fr_ret (compress_file h c env opts path) \<noteq> 0)
          \<or> (path = Some p \<and> np \<noteq> None \<and> fr_ret (compress_file h c env opts path) = 0
               \<and> \<not> opt_keep opts)"
      by (simp only: compress_file_unlinks [OF Inr])
    moreover have "np \<noteq> Some p"
      using compress_newpath_differs [of opts p p] Inr p by auto
    ultimately have r: "np \<noteq> None" "fr_ret (compress_file h c env opts path) = 0"
      "\<not> opt_keep opts" by auto
    then obtain q where q: "np = Some q" by auto
    from newpath_named(1) [of opts path q] Inr q have "\<not> opt_to_stdout opts" by simp
    with r Inr show ?thesis by (simp add: newpath_of_def)
  qed
  show "fr_ret (compress_file h c env opts path) = 0" using c by simp
  show "newpath_of (compress_newpath opts path) \<noteq> None" using c by simp
  show "\<not> opt_to_stdout opts" using c by simp
  show "\<not> opt_keep opts" using c by simp
next
  assume a: "path = Some p \<and> Tunlink p \<in> set (fr_log (decompress_file h d env opts path))"
  then have p: "path = Some p" and u: "Tunlink p \<in> set (fr_log (decompress_file h d env opts path))"
    by blast+
  have c: "fr_ret (decompress_file h d env opts path) = 0
        \<and> newpath_of (decompress_newpath opts path) \<noteq> None
        \<and> \<not> opt_to_stdout opts \<and> \<not> opt_keep opts"
  proof (cases "decompress_newpath opts path")
    case (Inl r)
    with u show ?thesis by (simp add: decompress_file_def)
  next
    case (Inr np)
    from u have "(fr_out (decompress_file h d env opts path) \<noteq> None \<and> np = Some p
             \<and> fr_ret (decompress_file h d env opts path) \<noteq> 0)
          \<or> (path = Some p \<and> np \<noteq> None \<and> fr_ret (decompress_file h d env opts path) = 0
               \<and> \<not> opt_keep opts)"
      by (simp only: decompress_file_unlinks [OF Inr])
    moreover have "np \<noteq> Some p"
      using decompress_newpath_differs [of opts p p] Inr p by auto
    ultimately have r: "np \<noteq> None" "fr_ret (decompress_file h d env opts path) = 0"
      "\<not> opt_keep opts" by auto
    then obtain q where q: "np = Some q" by auto
    from newpath_named(2) [of opts path q] Inr q have "\<not> opt_to_stdout opts" by simp
    with r Inr show ?thesis by (simp add: newpath_of_def)
  qed
  show "fr_ret (decompress_file h d env opts path) = 0" using c by simp
  show "newpath_of (decompress_newpath opts path) \<noteq> None" using c by simp
  show "\<not> opt_to_stdout opts" using c by simp
  show "\<not> opt_keep opts" using c by simp
qed

theorem cleanup_unlinks_witness:
  "(compress_newpath (default_options ''xpack'') (Some ''a'') = Inr (Some ''a.xpack'')
    \<and> fr_out (compress_file Little_endian toy_compressor
                 ((plain_env [])\<lparr>fe_output := \<lparr>out_bytes = [], out_limit = Some 4\<rparr>\<rparr>)
                 (default_options ''xpack'') (Some ''a'')) \<noteq> None
    \<and> fr_ret (compress_file Little_endian toy_compressor
                 ((plain_env [])\<lparr>fe_output := \<lparr>out_bytes = [], out_limit = Some 4\<rparr>\<rparr>)
                 (default_options ''xpack'') (Some ''a'')) \<noteq> 0)
   \<and> Tunlink ''a.xpack'' \<in> set (fr_log (compress_file Little_endian toy_compressor
                 ((plain_env [])\<lparr>fe_output := \<lparr>out_bytes = [], out_limit = Some 4\<rparr>\<rparr>)
                 (default_options ''xpack'') (Some ''a'')))
   \<and> Tunlink ''a'' \<in> set (fr_log (compress_file Little_endian toy_compressor (plain_env [])
                 (default_options ''xpack'') (Some ''a'')))
   \<and> fr_ret (compress_file Little_endian toy_compressor (plain_env [])
                 (default_options ''xpack'') (Some ''a'')) = 0
   \<and> (decompress_newpath (default_options ''xunpack'') (Some ''a.xpack'') = Inr (Some ''a'')
       \<and> fr_out (decompress_file Little_endian refusing_decompressor
                 (plain_env [0x58, 0x50, 0x41, 0x43, 0x4B, 0, 0, 0, 0, 0, 8, 0, 16, 0, 1, 6,
                             0, 0, 0, 0, 0, 0, 0, 0])
                 (default_options ''xunpack'') (Some ''a.xpack'')) \<noteq> None
       \<and> fr_ret (decompress_file Little_endian refusing_decompressor
                 (plain_env [0x58, 0x50, 0x41, 0x43, 0x4B, 0, 0, 0, 0, 0, 8, 0, 16, 0, 1, 6,
                             0, 0, 0, 0, 0, 0, 0, 0])
                 (default_options ''xunpack'') (Some ''a.xpack'')) \<noteq> 0)
   \<and> Tunlink ''a'' \<in> set (fr_log (decompress_file Little_endian refusing_decompressor
                 (plain_env [0x58, 0x50, 0x41, 0x43, 0x4B, 0, 0, 0, 0, 0, 8, 0, 16, 0, 1, 6,
                             0, 0, 0, 0, 0, 0, 0, 0])
                 (default_options ''xunpack'') (Some ''a.xpack'')))
   \<and> Tunlink ''a.xpack'' \<in> set (fr_log (decompress_file Little_endian refusing_decompressor
                 (plain_env [0x58, 0x50, 0x41, 0x43, 0x4B, 0, 0, 0, 0, 0, 8, 0, 16, 0, 1, 6])
                 (default_options ''xunpack'') (Some ''a.xpack'')))
   \<and> fr_ret (decompress_file Little_endian refusing_decompressor
                 (plain_env [0x58, 0x50, 0x41, 0x43, 0x4B, 0, 0, 0, 0, 0, 8, 0, 16, 0, 1, 6])
                 (default_options ''xunpack'') (Some ''a.xpack'')) = 0"
proof -
  let ?e1 = "(plain_env [])\<lparr>fe_output := \<lparr>out_bytes = [], out_limit = Some 4\<rparr>\<rparr>"
  let ?e3 = "plain_env [0x58, 0x50, 0x41, 0x43, 0x4B, 0, 0, 0, 0, 0, 8, 0, 16, 0, 1, 6,
                        0, 0, 0, 0, 0, 0, 0, 0]"
  let ?e4 = "plain_env [0x58, 0x50, 0x41, 0x43, 0x4B, 0, 0, 0, 0, 0, 8, 0, 16, 0, 1, 6]"
  let ?oc = "default_options ''xpack''"
  let ?od = "default_options ''xunpack''"
  let ?C = "\<lambda>e. compress_file Little_endian toy_compressor e ?oc (Some ''a'')"
  let ?D = "\<lambda>e. decompress_file Little_endian refusing_decompressor e ?od (Some ''a.xpack'')"
  have a1: "compress_newpath ?oc (Some ''a'') = Inr (Some ''a.xpack'')
            \<and> fr_out (?C ?e1) \<noteq> None \<and> fr_ret (?C ?e1) \<noteq> 0"
    by (simp add: run1) (simp add: run_defs)
  have a2: "Some ''a'' = Some ''a'' \<and> Tunlink ''a'' \<in> set (fr_log (?C (plain_env [])))"
    by (simp add: run2)
  have a3: "decompress_newpath ?od (Some ''a.xpack'') = Inr (Some ''a'')
            \<and> fr_out (?D ?e3) \<noteq> None \<and> fr_ret (?D ?e3) \<noteq> 0"
    by (simp add: run3) (simp add: run_defs)
  have a4: "Some ''a.xpack'' = Some ''a.xpack'' \<and> Tunlink ''a.xpack'' \<in> set (fr_log (?D ?e4))"
    by (simp add: run4)
  from cleanup_unlinks [where opts = ?oc and path = "Some ''a''" and np = "''a.xpack''"
      and h = Little_endian and c = toy_compressor and env = ?e1] a1
  have r1: "Tunlink ''a.xpack'' \<in> set (fr_log (?C ?e1))" by blast
  from cleanup_unlinks [where opts = ?oc and path = "Some ''a''" and p = "''a''"
      and h = Little_endian and c = toy_compressor and env = "plain_env []"] a2
  have r2: "fr_ret (?C (plain_env [])) = 0" by blast
  from cleanup_unlinks [where opts = ?od and path = "Some ''a.xpack''" and np' = "''a''"
      and h = Little_endian and d = refusing_decompressor and env = ?e3] a3
  have r3: "Tunlink ''a'' \<in> set (fr_log (?D ?e3))" by blast
  from cleanup_unlinks [where opts = ?od and path = "Some ''a.xpack''" and p = "''a.xpack''"
      and h = Little_endian and d = refusing_decompressor and env = ?e4] a4
  have r4: "fr_ret (?D ?e4) = 0" by blast
  show ?thesis using a1 r1 a2 r2 a3 r3 a4 r4 by blast
qed

section \<open>The exit status\<close>

lemma or_fold:
  "acc \<in> {0, 1, 2, 3 :: int} \<Longrightarrow> \<forall>r \<in> set rs. r = 0 \<or> r = -1 \<or> r = -2 \<Longrightarrow>
     foldl (\<lambda>ret r. ret OR (- r)) acc rs =
       (if acc = 1 \<or> acc = 3 \<or> (\<exists>r \<in> set rs. r = -1)
        then (if acc = 2 \<or> acc = 3 \<or> (\<exists>r \<in> set rs. r = -2) then 3 else 1)
        else (if acc = 2 \<or> (\<exists>r \<in> set rs. r = -2) then 2 else 0))"
proof (induction rs arbitrary: acc)
  case Nil
  then show ?case by auto
next
  case (Cons r rs)
  have r: "r = 0 \<or> r = -1 \<or> r = -2" using Cons.prems(2) by simp
  have rest: "\<forall>r \<in> set rs. r = 0 \<or> r = -1 \<or> r = -2" using Cons.prems(2) by simp
  have acc': "acc OR (- r) \<in> {0, 1, 2, 3}"
    using Cons.prems(1) r by auto
  have "foldl (\<lambda>ret r. ret OR (- r)) acc (r # rs) = foldl (\<lambda>ret r. ret OR (- r)) (acc OR (- r)) rs"
    by simp
  also note Cons.IH [OF acc' rest]
  finally have e: "foldl (\<lambda>ret r. ret OR (- r)) acc (r # rs) =
       (if acc OR (- r) = 1 \<or> acc OR (- r) = 3 \<or> (\<exists>r \<in> set rs. r = -1)
        then (if acc OR (- r) = 2 \<or> acc OR (- r) = 3 \<or> (\<exists>r \<in> set rs. r = -2) then 3 else 1)
        else (if acc OR (- r) = 2 \<or> (\<exists>r \<in> set rs. r = -2) then 2 else 0))" .
  from Cons.prems(1) have "acc = 0 \<or> acc = 1 \<or> acc = 2 \<or> acc = 3" by simp
  then show ?case
    using r unfolding e by (elim disjE) simp_all
qed


lemma decompress_files_fold:
  "decompress_files h d opts files acc =
     foldl (\<lambda>ret r. ret OR (- r)) acc
       (map (\<lambda>(path, env). fr_ret (decompress_file h d env opts path)) files)"
  unfolding decompress_files_def
  by (induction files arbitrary: acc) (auto split: prod.splits)

lemma compress_files_fold:
  "compress_files h c opts files acc =
     foldl (\<lambda>ret r. ret OR (- r)) acc
       (map (\<lambda>(path, env). fr_ret (compress_file h c env opts path)) files)"
  unfolding compress_files_def
  by (induction files arbitrary: acc) (auto split: prod.splits)

lemma parse_options_status:
  "parse_options re gs opts = Inl status \<Longrightarrow>
     (status = 0 \<or> status = 1)
     \<and> ((\<forall>(ch, arg) \<in> set gs. ch \<noteq> CHR ''h'' \<and> ch \<noteq> CHR ''V'') \<longrightarrow> status = 1)"
proof (induction gs arbitrary: opts)
  case Nil
  then show ?case by simp
next
  case (Cons g gs)
  obtain ch arg where g: "g = (ch, arg)" by (cases g)
  from Cons.prems have "(\<exists>opts'. parse_options re gs opts' = Inl status)
      \<or> (status = 0 \<and> (ch = CHR ''h'' \<or> ch = CHR ''V'')) \<or> status = 1"
    unfolding g parse_options.simps Let_def
    by (simp split: if_splits) blast+
  then show ?case
  proof (elim disjE exE)
    fix opts' assume "parse_options re gs opts' = Inl status"
    from Cons.IH [OF this] show ?thesis by (simp add: g)
  next
    assume "status = 0 \<and> (ch = CHR ''h'' \<or> ch = CHR ''V'')"
    then show ?thesis by (auto simp: g)
  next
    assume "status = 1"
    then show ?thesis by simp
  qed
qed

lemma exit_status_of_results:
  assumes "\<forall>r \<in> set rs. r = 0 \<or> r = -1 \<or> r = (-2 :: int)"
  shows "(let ret = foldl (\<lambda>ret r. ret OR (- r)) 0 rs in if ret \<noteq> 0 \<and> ret \<noteq> 2 then 1 else ret)
           = (if \<forall>r \<in> set rs. r = 0 then 0 else if \<exists>r \<in> set rs. r = -1 then 1 else 2)"
proof -
  have z: "(0::int) \<in> {0, 1, 2, 3}" by simp
  show ?thesis
    unfolding or_fold [OF z assms] Let_def using assms by (auto intro: bexI [where x = "-2"] bexI [where x = "-1"])
qed

lemma run_opts:
  "parse_options plain_run [(CHR ''k'', [])] (default_options (program_invocation_name plain_run))
     = Inr ((default_options ''xunpack'')\<lparr>opt_keep := True\<rparr>)"
  by (simp add: plain_run_def program_invocation_name_def get_filename_def)

lemma run_results:
  "per_file_results plain_run ((default_options ''xunpack'')\<lparr>opt_keep := True\<rparr>)
     [(''a.txt'', plain_env []), (''b.xpack'', plain_env [0x58])] = [-2, -1]"
  "per_file_results plain_run ((default_options ''xunpack'')\<lparr>opt_keep := True\<rparr>)
     [(''a.txt'', plain_env [])] = [-2]"
  "per_file_results plain_run ((default_options ''xunpack'')\<lparr>opt_keep := True\<rparr>)
     [(''c.xpack'', plain_env [0x58, 0x50, 0x41, 0x43, 0x4B, 0, 0, 0, 0, 0, 8, 0, 16, 0, 1, 6])] = [0]"
  by (simp_all add: per_file_results_def plain_run_def file_list_def run_defs refusing_decompressor_def
        decompress_loop.simps)



text \<open>
  Claim C6. \<open>tmain\<close> accumulates \<open>ret |= -result\<close> over the file operands and maps
  every value other than 0 and 2 to 1. With per-file results 0 (no warning or error),
  -1 (error) and -2 (warning), the exit status is 0 when every file gave 0, 1 when some
  file gave -1, and 2 otherwise, that is when some file gave -2 and none gave -1. A
  \<open>return\<close> from inside the option loop gives the status 0 (for \<open>-h\<close> and \<open>-V\<close>) or
  1, and it is 1 whenever neither \<open>-h\<close> nor \<open>-V\<close> is among the options, that is when
  option parsing failed; a failed allocation of the codec handle gives 1 as well.
\<close>

theorem exit_status:
  "(parse_options re getopt_results (default_options (program_invocation_name re)) = Inl status \<longrightarrow>
      tmain re getopt_results operands = status
      \<and> (status = 0 \<or> status = 1)
      \<and> ((\<forall>(ch, arg) \<in> set getopt_results. ch \<noteq> CHR ''h'' \<and> ch \<noteq> CHR ''V'') \<longrightarrow> status = 1))
   \<and> (parse_options re getopt_results (default_options (program_invocation_name re)) = Inr opts
       \<and> \<not> allocated re opts \<longrightarrow>
         tmain re getopt_results operands = 1)
   \<and> (parse_options re getopt_results (default_options (program_invocation_name re)) = Inr opts
       \<and> allocated re opts
       \<and> (\<forall>r \<in> set (per_file_results re opts operands). r = 0 \<or> r = -1 \<or> r = -2) \<longrightarrow>
         tmain re getopt_results operands =
           (if \<forall>r \<in> set (per_file_results re opts operands). r = 0 then 0
            else if \<exists>r \<in> set (per_file_results re opts operands). r = -1 then 1
            else 2))"
proof (intro conjI impI)
  assume a: "parse_options re getopt_results (default_options (program_invocation_name re)) = Inl status"
  show "tmain re getopt_results operands = status"
    by (simp add: tmain_def a)
  from parse_options_status [OF a]
  show "status = 0 \<or> status = 1" by blast
  assume "\<forall>(ch, arg) \<in> set getopt_results. ch \<noteq> CHR ''h'' \<and> ch \<noteq> CHR ''V''"
  with parse_options_status [OF a] show "status = 1" by blast
next
  assume a: "parse_options re getopt_results (default_options (program_invocation_name re)) = Inr opts
       \<and> \<not> allocated re opts"
  then show "tmain re getopt_results operands = 1"
    by (auto simp: tmain_def allocated_def Let_def split: if_splits option.splits)
next
  assume a: "parse_options re getopt_results (default_options (program_invocation_name re)) = Inr opts
       \<and> allocated re opts
       \<and> (\<forall>r \<in> set (per_file_results re opts operands). r = 0 \<or> r = -1 \<or> r = -2)"
  then have po: "parse_options re getopt_results (default_options (program_invocation_name re)) = Inr opts"
    and al: "allocated re opts"
    and rs: "\<forall>r \<in> set (per_file_results re opts operands). r = 0 \<or> r = -1 \<or> r = -2"
    by blast+
  have "tmain re getopt_results operands =
          (let ret = foldl (\<lambda>ret r. ret OR (- r)) 0 (per_file_results re opts operands)
           in if ret \<noteq> 0 \<and> ret \<noteq> 2 then 1 else ret)"
    using al
    by (cases "opt_decompress opts")
       (auto simp: tmain_def po allocated_def per_file_results_def Let_def
          decompress_files_fold compress_files_fold split: option.splits)
  also note exit_status_of_results [OF rs]
  finally show "tmain re getopt_results operands =
           (if \<forall>r \<in> set (per_file_results re opts operands). r = 0 then 0
            else if \<exists>r \<in> set (per_file_results re opts operands). r = -1 then 1
            else 2)" .
qed


theorem exit_status_witness:
  "parse_options plain_run [(CHR ''x'', [])] (default_options (program_invocation_name plain_run))
      = Inl 1
   \<and> tmain plain_run [(CHR ''x'', [])] [] = 1
   \<and> (parse_options plain_run [(CHR ''k'', [])] (default_options (program_invocation_name plain_run))
         = Inr ((default_options ''xunpack'')\<lparr>opt_keep := True\<rparr>)
       \<and> allocated plain_run ((default_options ''xunpack'')\<lparr>opt_keep := True\<rparr>)
       \<and> per_file_results plain_run ((default_options ''xunpack'')\<lparr>opt_keep := True\<rparr>)
            [(''a.txt'', plain_env []), (''b.xpack'', plain_env [0x58])] = [-2, -1])
   \<and> tmain plain_run [(CHR ''k'', [])]
         [(''a.txt'', plain_env []), (''b.xpack'', plain_env [0x58])] = 1
   \<and> per_file_results plain_run ((default_options ''xunpack'')\<lparr>opt_keep := True\<rparr>)
         [(''a.txt'', plain_env [])] = [-2]
   \<and> tmain plain_run [(CHR ''k'', [])] [(''a.txt'', plain_env [])] = 2
   \<and> per_file_results plain_run ((default_options ''xunpack'')\<lparr>opt_keep := True\<rparr>)
         [(''c.xpack'', plain_env [0x58, 0x50, 0x41, 0x43, 0x4B, 0, 0, 0, 0, 0, 8, 0, 16, 0, 1, 6])]
       = [0]
   \<and> tmain plain_run [(CHR ''k'', [])]
         [(''c.xpack'', plain_env [0x58, 0x50, 0x41, 0x43, 0x4B, 0, 0, 0, 0, 0, 8, 0, 16, 0, 1, 6])]
       = 0"
proof -
  let ?o = "(default_options ''xunpack'')\<lparr>opt_keep := True\<rparr>"
  let ?k = "[(CHR ''k'', [])]"
  let ?f1 = "[(''a.txt'', plain_env []), (''b.xpack'', plain_env [0x58])]"
  let ?f2 = "[(''a.txt'', plain_env [])]"
  let ?f3 = "[(''c.xpack'', plain_env [0x58, 0x50, 0x41, 0x43, 0x4B, 0, 0, 0, 0, 0, 8, 0, 16, 0, 1, 6])]"
  have px: "parse_options plain_run [(CHR ''x'', [])]
              (default_options (program_invocation_name plain_run)) = Inl 1
            \<and> (\<forall>(ch, arg) \<in> set [(CHR ''x'', [])]. ch \<noteq> CHR ''h'' \<and> ch \<noteq> CHR ''V'')"
    by simp
  have al: "allocated plain_run ?o"
    by (simp add: allocated_def plain_run_def)
  from exit_status [where re = plain_run and getopt_results = "[(CHR ''x'', [])]" and status = 1
      and operands = "[]"] px
  have t0: "tmain plain_run [(CHR ''x'', [])] [] = 1" by blast
  from exit_status [where re = plain_run and getopt_results = ?k and opts = ?o and operands = ?f1]
    run_opts al
  have t1: "tmain plain_run ?k ?f1 = 1" by (simp add: run_results)
  from exit_status [where re = plain_run and getopt_results = ?k and opts = ?o and operands = ?f2]
    run_opts al
  have t2: "tmain plain_run ?k ?f2 = 2" by (simp add: run_results)
  from exit_status [where re = plain_run and getopt_results = ?k and opts = ?o and operands = ?f3]
    run_opts al
  have t3: "tmain plain_run ?k ?f3 = 0" by (simp add: run_results)
  show ?thesis
    using px t0 run_opts al run_results t1 t2 t3 by blast
qed

end
